theory Spec2Isabelle
  imports Complex_Main "HOL-Library.Sublist"
begin

section \<open>The metering-and-routing kernel of app.py\<close>

text \<open>
  The development embeds the chat endpoint of \<^verbatim>\<open>src/app.py\<close>: the decorator
  \<^verbatim>\<open>require_api_key\<close>, the rate-limit resolver \<^verbatim>\<open>get_rate_limit\<close>, the provider
  adapters with their mock fallbacks, and the handler \<^verbatim>\<open>chat\<close>.

  Conventions of the embedding.
  \<^item> A \<^verbatim>\<open>datetime\<close> is an \<open>int\<close>: microseconds on the naive local clock. Every
    \<^verbatim>\<open>datetime.now()\<close> of the source is a separate reading, supplied with the request,
    and lies more than 30 days before \<^verbatim>\<open>datetime.max\<close>.
  \<^item> A Python \<^verbatim>\<open>float\<close> (cost, latency, quota percentage) is a \<open>real\<close>: the
    arithmetic of the source is kept, its binary rounding is not.
  \<^item> A Python \<^verbatim>\<open>str\<close> is a \<open>string\<close>; its characters are those with a code point
    below 256.
  \<^item> The SQLite tables are lists of rows (\<^verbatim>\<open>users\<close>, \<^verbatim>\<open>usage_logs\<close>) and a map
    from the primary key (\<^verbatim>\<open>analytics_daily\<close>). Only the columns the chat endpoint
    reads or writes are kept.
  \<^item> An integer Python hands to SQLite must fit a signed 64-bit \<^verbatim>\<open>INTEGER\<close>: the
    \<^verbatim>\<open>OverflowError\<close> of the binding is part of the model. A sum SQLite itself computes
    (the counters of the daily row) never raises: beyond 64 bits SQLite holds it as a
    \<^verbatim>\<open>REAL\<close>, and as for every float the value is kept and the rounding is not.
  \<^item> What the source takes from outside (the upstream SDK calls, the verdict of the
    flask-limiter library) is a field of the request.
\<close>

subsection \<open>Tables\<close>

text \<open>Table \<^verbatim>\<open>users\<close>; the column \<^verbatim>\<open>id\<close> is the field \<open>uid\<close>.\<close>

record user =
  uid :: string
  api_key :: string
  subscription_tier :: string
  tokens_included :: int
  tokens_used :: int
  tokens_reset_date :: int
  is_active :: bool
  updated_at :: int

text \<open>Table \<^verbatim>\<open>usage_logs\<close>; the autoincrement key is the position in the list.\<close>

record usage_log =
  user_id_log :: string
  provider_log :: string
  model_log :: string
  tokens_log :: int
  cost_log :: real
  endpoint_log :: string
  response_time_log :: real
  timestamp_log :: int

text \<open>Table \<^verbatim>\<open>analytics_daily\<close>, keyed by \<^verbatim>\<open>(date, user_id)\<close>.\<close>

record analytics_row =
  total_requests :: int
  total_tokens :: int
  total_cost :: real
  avg_response_time :: real

text \<open>What an adapter was asked: the prompt and the model it was called with.\<close>

datatype adapter_call = CallOpenAI string string | CallAnthropic string string

text \<open>
  The state a request runs against: the three tables and the log of the adapter calls made
  so far (\<^verbatim>\<open>call_openai_api\<close>, \<^verbatim>\<open>call_anthropic_api\<close>).
\<close>

record world =
  users :: "user list"
  usage_logs :: "usage_log list"
  analytics_daily :: "int \<times> string \<Rightarrow> analytics_row option"
  adapter_calls :: "adapter_call list"

subsection \<open>Subscription tiers\<close>

text \<open>\<^verbatim>\<open>SUBSCRIPTION_TIERS\<close>, in the order the dictionary is written; the price in
  dollars is left out.\<close>

record tier_policy =
  tokens_per_month :: int
  rate_limit :: string
  stripe_price_id :: "string option"

definition SUBSCRIPTION_TIERS :: "(string \<times> tier_policy) list" where
  "SUBSCRIPTION_TIERS =
     [(''free'',
         \<lparr>tokens_per_month = 10000, rate_limit = ''100/hour'', stripe_price_id = None\<rparr>),
      (''starter'',
         \<lparr>tokens_per_month = 100000, rate_limit = ''1000/hour'',
          stripe_price_id = Some ''price_starter_monthly''\<rparr>),
      (''pro'',
         \<lparr>tokens_per_month = 1000000, rate_limit = ''5000/hour'',
          stripe_price_id = Some ''price_pro_monthly''\<rparr>),
      (''enterprise'',
         \<lparr>tokens_per_month = 10000000, rate_limit = ''20000/hour'',
          stripe_price_id = Some ''price_enterprise_monthly''\<rparr>)]"

subsection \<open>Provider adapters\<close>

text \<open>The dictionary every adapter returns.\<close>

record result =
  response :: string
  tokens :: int
  cost :: real
  model :: string
  response_time :: real
  provider :: string

datatype exn = UpstreamError string

text \<open>
  What the body of the \<^verbatim>\<open>try\<close> block gets from the SDK: an exception, or the fields the
  code reads from the reply and the time that elapsed.
\<close>

record openai_reply =
  content :: string
  usage_total_tokens :: int
  elapsed_openai :: real

record anthropic_reply =
  text_out :: string
  input_tokens :: int
  output_tokens :: int
  elapsed_anthropic :: real

text \<open>\<^verbatim>\<open>rates.get(model, default)\<close> times the token count.\<close>

definition calculate_openai_cost :: "string \<Rightarrow> int \<Rightarrow> real" where
  "calculate_openai_cost m n =
     real_of_int n *
       (if m = ''gpt-4'' then 3 / 100000
        else if m = ''gpt-3.5-turbo'' then 2 / 1000000
        else if m = ''gpt-4-turbo'' then 1 / 100000
        else 2 / 1000000)"

definition calculate_anthropic_cost :: "string \<Rightarrow> int \<Rightarrow> real" where
  "calculate_anthropic_cost m n =
     real_of_int n *
       (if m = ''claude-3-sonnet-20240229'' then 15 / 1000000
        else if m = ''claude-3-haiku-20240307'' then 1 / 1000000
        else if m = ''claude-3-opus-20240229'' then 75 / 1000000
        else 15 / 1000000)"

text \<open>\<^verbatim>\<open>str.isspace\<close> on the characters below 256.\<close>

definition py_isspace :: "char \<Rightarrow> bool" where
  "py_isspace c =
     (let n = (of_char c :: nat)
      in (9 \<le> n \<and> n \<le> 13) \<or> (28 \<le> n \<and> n \<le> 32) \<or> n = 133 \<or> n = 160)"

text \<open>
  \<^verbatim>\<open>str.split()\<close> with no argument: the maximal runs of characters that are not
  white space. The first argument is the run being read.
\<close>

fun split_from :: "string \<Rightarrow> string \<Rightarrow> string list" where
  "split_from cur [] = (if cur = [] then [] else [cur])"
| "split_from cur (c # cs) =
     (if py_isspace c then (if cur = [] then split_from [] cs else cur # split_from [] cs)
      else split_from (cur @ [c]) cs)"

definition py_split :: "string \<Rightarrow> string list" where
  "py_split s = split_from [] s"

text \<open>\<^verbatim>\<open>round(x, 6)\<close>.\<close>

definition round6 :: "real \<Rightarrow> real" where
  "round6 x = real_of_int (round (x * 1000000)) / 1000000"

text \<open>The f-string both mocks build.\<close>

definition mock_response :: "string \<Rightarrow> string \<Rightarrow> string" where
  "mock_response m prompt =
     ''[MOCK] This is a simulated response from '' @ m @ '' to: '' @ [CHR 39] @
       take 50 prompt @ ''...'' @ [CHR 39]"

text \<open>
  \<^verbatim>\<open>int(len(prompt.split()) * 1.3)\<close>: the product is not negative, so \<^verbatim>\<open>int\<close> is the
  floor, and the floor of \<open>n * 13 / 10\<close> is \<open>13 * n div 10\<close>.
\<close>

definition call_openai_mock :: "string \<Rightarrow> string \<Rightarrow> result" where
  "call_openai_mock prompt m =
     (let tks = (13 * int (length (py_split prompt))) div 10
      in \<lparr>response = mock_response m prompt,
          tokens = tks,
          cost = round6 (calculate_openai_cost m tks),
          model = m,
          response_time = 5 / 10,
          provider = ''openai''\<rparr>)"

definition call_claude_mock :: "string \<Rightarrow> string \<Rightarrow> result" where
  "call_claude_mock prompt m =
     (let tks = (12 * int (length (py_split prompt))) div 10
      in \<lparr>response = mock_response m prompt,
          tokens = tks,
          cost = round6 (calculate_anthropic_cost m tks),
          model = m,
          response_time = 7 / 10,
          provider = ''anthropic''\<rparr>)"

text \<open>
  The product of an integer and a float converts the integer to a float first, and that
  raises \<^verbatim>\<open>OverflowError\<close> for an integer that rounds beyond the largest float.
\<close>

definition float_overflows :: "int \<Rightarrow> bool" where
  "float_overflows n = (2 ^ 1024 - 2 ^ 970 \<le> \<bar>n\<bar>)"

text \<open>
  The upstream capabilities of one request. \<open>None\<close>: \<^verbatim>\<open>openai.api_key\<close> is not set, or
  \<^verbatim>\<open>get_anthropic_client()\<close> returns \<^verbatim>\<open>None\<close>. Otherwise the function gives, for a model
  and a prompt, what the \<^verbatim>\<open>try\<close> block meets. The cost is computed inside the
  \<^verbatim>\<open>try\<close> block too: a token count too large for a float ends in the \<^verbatim>\<open>except\<close>
  branch like any other exception.
\<close>

record upstreams =
  openai_create :: "(string \<Rightarrow> string \<Rightarrow> exn + openai_reply) option"
  anthropic_create :: "(string \<Rightarrow> string \<Rightarrow> exn + anthropic_reply) option"

definition call_openai_api :: "upstreams \<Rightarrow> string \<Rightarrow> string \<Rightarrow> result" where
  "call_openai_api ups prompt m =
     (case openai_create ups of
        None \<Rightarrow> call_openai_mock prompt m
      | Some create \<Rightarrow>
          (case create m prompt of
             Inl e \<Rightarrow> call_openai_mock prompt m
           | Inr r \<Rightarrow>
               if float_overflows (usage_total_tokens r) then call_openai_mock prompt m
               else
                 \<lparr>response = content r,
                  tokens = usage_total_tokens r,
                  cost = calculate_openai_cost m (usage_total_tokens r),
                  model = m,
                  response_time = elapsed_openai r,
                  provider = ''openai''\<rparr>))"

definition call_anthropic_api :: "upstreams \<Rightarrow> string \<Rightarrow> string \<Rightarrow> result" where
  "call_anthropic_api ups prompt m =
     (case anthropic_create ups of
        None \<Rightarrow> call_claude_mock prompt m
      | Some create \<Rightarrow>
          (case create m prompt of
             Inl e \<Rightarrow> call_claude_mock prompt m
           | Inr r \<Rightarrow>
               if float_overflows (input_tokens r + output_tokens r)
               then call_claude_mock prompt m
               else
                 \<lparr>response = text_out r,
                  tokens = input_tokens r + output_tokens r,
                  cost = calculate_anthropic_cost m (input_tokens r + output_tokens r),
                  model = m,
                  response_time = elapsed_anthropic r,
                  provider = ''anthropic''\<rparr>))"

subsection \<open>Requests\<close>

text \<open>
  One HTTP request to \<^verbatim>\<open>/api/chat\<close>: the credential in the header or in the query
  string, the fields of the JSON body (absent, or a string), the readings of the clock in
  the order the code takes them, the verdict of the rate limiter for a limit string, and
  the upstream capabilities.
\<close>

record request =
  header_api_key :: "string option"
  arg_api_key :: "string option"
  json_prompt :: "string option"
  json_model :: "string option"
  json_provider :: "string option"
  now_check :: int
  now_reset :: int
  now_log :: int
  now_update :: int
  now_today :: int
  limiter_admits :: "string \<Rightarrow> bool"
  ups :: upstreams

text \<open>What the decorator stores on \<^verbatim>\<open>request\<close> for the handler.\<close>

record req_ctx =
  req_user_id :: string
  req_tier :: string
  req_tokens_included :: int
  req_tokens_used :: int

datatype py_exn = ZeroDivisionError | OverflowError

text \<open>
  The replies that are not the chat reply: the 401 of a missing credential, the 401 of an
  unknown or inactive one, the 429 of the rate limiter, the 400 of an empty prompt, the 429
  of the quota, and the 500 of an exception nobody catches.
\<close>

datatype rejection =
    ApiKeyRequired
  | InvalidOrInactiveApiKey
  | RateLimitExceeded
  | PromptRequired
  | TokenQuotaExceeded
  | Unhandled py_exn

text \<open>The JSON object \<^verbatim>\<open>chat\<close> returns.\<close>

record chat_reply =
  response_out :: string
  model_used :: string
  provider_out :: string
  tokens_used_out :: int
  cost_out :: real
  response_time_out :: real
  total_tokens_used :: int
  remaining_quota :: int
  quota_percentage :: real

type_synonym outcome = "rejection + chat_reply"

type_synonym handler = "req_ctx \<Rightarrow> request \<Rightarrow> world \<Rightarrow> outcome \<times> world"

text \<open>\<^verbatim>\<open>request.headers.get('X-API-Key') or request.args.get('api_key')\<close>.\<close>

definition request_api_key :: "request \<Rightarrow> string option" where
  "request_api_key rq =
     (case header_api_key rq of
        None \<Rightarrow> arg_api_key rq
      | Some k \<Rightarrow> if k \<noteq> [] then Some k else arg_api_key rq)"

text \<open>\<^verbatim>\<open>SELECT ... FROM users WHERE api_key = ?\<close> followed by \<^verbatim>\<open>fetchone()\<close>.\<close>

definition fetch_user :: "world \<Rightarrow> string \<Rightarrow> user option" where
  "fetch_user w k = find (\<lambda>u. api_key u = k) (users w)"

text \<open>\<^verbatim>\<open>timedelta(days=30)\<close>, in microseconds.\<close>

definition days30 :: int where
  "days30 = 30 * 86400 * 1000000"

subsection \<open>Authentication and rollover\<close>

text \<open>
  The body of \<^verbatim>\<open>decorated_function\<close> up to the call of the handler: the rejection, or
  the attributes set on the request (from the row read, with \<^verbatim>\<open>user[3] = 0\<close> after a
  rollover), and the state after the rollover \<^verbatim>\<open>UPDATE\<close>.
\<close>

definition request_attrs :: "user \<Rightarrow> req_ctx" where
  "request_attrs u =
     \<lparr>req_user_id = uid u, req_tier = subscription_tier u,
      req_tokens_included = tokens_included u, req_tokens_used = tokens_used u\<rparr>"

text \<open>The rollover \<^verbatim>\<open>UPDATE users SET tokens_used = 0, tokens_reset_date = ? WHERE api_key = ?\<close>.\<close>

definition reset_tokens :: "string \<Rightarrow> int \<Rightarrow> world \<Rightarrow> world" where
  "reset_tokens k new_reset_date w =
     w\<lparr>users :=
         map (\<lambda>r. if api_key r = k
                   then r\<lparr>tokens_used := 0, tokens_reset_date := new_reset_date\<rparr>
                   else r)
           (users w)\<rparr>"

definition authenticate :: "request \<Rightarrow> world \<Rightarrow> (rejection + req_ctx) \<times> world" where
  "authenticate rq w =
     (case request_api_key rq of
        None \<Rightarrow> (Inl ApiKeyRequired, w)
      | Some k \<Rightarrow>
          if k = [] then (Inl ApiKeyRequired, w)
          else
            (case fetch_user w k of
               None \<Rightarrow> (Inl InvalidOrInactiveApiKey, w)
             | Some u \<Rightarrow>
                 if \<not> is_active u then (Inl InvalidOrInactiveApiKey, w)
                 else if now_check rq > tokens_reset_date u then
                   (Inr (request_attrs (u\<lparr>tokens_used := 0\<rparr>)),
                    reset_tokens k (now_reset rq + days30) w)
                 else (Inr (request_attrs u), w)))"

definition require_api_key :: "handler \<Rightarrow> request \<Rightarrow> world \<Rightarrow> outcome \<times> world" where
  "require_api_key f rq w =
     (case authenticate rq w of
        (Inl e, w') \<Rightarrow> (Inl e, w')
      | (Inr cx, w') \<Rightarrow> f cx rq w')"

subsection \<open>Rate limit\<close>

definition get_rate_limit :: "request \<Rightarrow> world \<Rightarrow> string" where
  "get_rate_limit rq w =
     (case request_api_key rq of
        None \<Rightarrow> ''100/hour''
      | Some k \<Rightarrow>
          if k = [] then ''100/hour''
          else
            (case fetch_user w k of
               None \<Rightarrow> ''100/hour''
             | Some u \<Rightarrow>
                 (case map_of SUBSCRIPTION_TIERS (subscription_tier u) of
                    None \<Rightarrow> ''100/hour''
                  | Some p \<Rightarrow> rate_limit p)))"

text \<open>
  \<^verbatim>\<open>@limiter.limit(get_rate_limit)\<close>: the library evaluates the callable at the request
  and answers 429 when its counter for the caller has reached that limit.
\<close>

definition limiter_limit :: "(request \<Rightarrow> world \<Rightarrow> string) \<Rightarrow> handler \<Rightarrow> handler" where
  "limiter_limit limit_fn f cx rq w =
     (if limiter_admits rq (limit_fn rq w) then f cx rq w else (Inl RateLimitExceeded, w))"

text \<open>
  The \<^verbatim>\<open>UPDATE\<close> of \<^verbatim>\<open>stripe_webhook\<close> on \<^verbatim>\<open>checkout.session.completed\<close>: the first
  tier whose price is the subscription's, written to the rows of the user.
\<close>

definition tier_of_price :: "string \<Rightarrow> string option" where
  "tier_of_price price_id =
     map_option fst (find (\<lambda>(t, p). stripe_price_id p = Some price_id) SUBSCRIPTION_TIERS)"

definition checkout_completed :: "string \<Rightarrow> string \<Rightarrow> int \<Rightarrow> world \<Rightarrow> world" where
  "checkout_completed price_id user_id now w =
     (case tier_of_price price_id of
        None \<Rightarrow> w
      | Some t \<Rightarrow>
          (case map_of SUBSCRIPTION_TIERS t of
             None \<Rightarrow> w
           | Some p \<Rightarrow>
               w\<lparr>users :=
                   map (\<lambda>r. if uid r = user_id
                             then r\<lparr>subscription_tier := t,
                                    tokens_included := tokens_per_month p,
                                    updated_at := now\<rparr>
                             else r)
                     (users w)\<rparr>))"

subsection \<open>The chat handler\<close>

text \<open>Lines 411 to 417: which adapter is called, and with which model.\<close>

definition routed_call ::
  "upstreams \<Rightarrow> string \<Rightarrow> string \<Rightarrow> string \<Rightarrow> result \<times> adapter_call" where
  "routed_call u prompt m p =
     (if p = ''openai'' \<or> (p = ''auto'' \<and> prefix ''gpt'' m) then
        (let m' = (if m \<noteq> ''auto'' then m else ''gpt-3.5-turbo'')
         in (call_openai_api u prompt m', CallOpenAI prompt m'))
      else if p = ''anthropic'' \<or> (p = ''auto'' \<and> prefix ''claude'' m) then
        (let m' = (if m \<noteq> ''auto'' then m else ''claude-3-sonnet-20240229'')
         in (call_anthropic_api u prompt m', CallAnthropic prompt m'))
      else (call_openai_api u prompt ''gpt-3.5-turbo'', CallOpenAI prompt ''gpt-3.5-turbo''))"

text \<open>\<^verbatim>\<open>strftime('%Y-%m-%d')\<close>: the day of a reading of the clock.\<close>

definition date_of :: "int \<Rightarrow> int" where
  "date_of t = t div (86400 * 1000000)"

text \<open>Python's \<^verbatim>\<open>/\<close> on two integers.\<close>

definition py_truediv :: "int \<Rightarrow> int \<Rightarrow> py_exn + real" where
  "py_truediv a b = (if b = 0 then Inl ZeroDivisionError else Inr (real_of_int a / real_of_int b))"

text \<open>The \<^verbatim>\<open>INSERT OR REPLACE INTO analytics_daily\<close> with its \<^verbatim>\<open>COALESCE\<close> subqueries.\<close>

definition upsert_daily ::
  "int \<Rightarrow> string \<Rightarrow> result \<Rightarrow> (int \<times> string \<Rightarrow> analytics_row option)
     \<Rightarrow> (int \<times> string \<Rightarrow> analytics_row option)" where
  "upsert_daily today user_id res tbl =
     tbl((today, user_id) \<mapsto>
       \<lparr>total_requests =
          (case tbl (today, user_id) of None \<Rightarrow> 0 | Some a \<Rightarrow> total_requests a) + 1,
        total_tokens =
          (case tbl (today, user_id) of None \<Rightarrow> 0 | Some a \<Rightarrow> total_tokens a) + tokens res,
        total_cost =
          (case tbl (today, user_id) of None \<Rightarrow> 0 | Some a \<Rightarrow> total_cost a) + cost res,
        avg_response_time = response_time res\<rparr>)"

text \<open>
  The integers \<^verbatim>\<open>sqlite3\<close> binds as a parameter: those of a signed 64-bit
  \<^verbatim>\<open>INTEGER\<close>. Binding any other raises \<^verbatim>\<open>OverflowError\<close>.
\<close>

definition sqlite_int :: "int \<Rightarrow> bool" where
  "sqlite_int n = (- (2 ^ 63) \<le> n \<and> n < 2 ^ 63)"

text \<open>
  The three statements of lines 419 to 448 as they are committed: the usage row, the debit
  of the user and the daily row.
\<close>

definition usage_writes :: "req_ctx \<Rightarrow> request \<Rightarrow> result \<Rightarrow> world \<Rightarrow> world" where
  "usage_writes cx rq res w =
     w\<lparr>usage_logs :=
         usage_logs w @
           [\<lparr>user_id_log = req_user_id cx, provider_log = provider res,
             model_log = model res, tokens_log = tokens res, cost_log = cost res,
             endpoint_log = ''/api/chat'', response_time_log = response_time res,
             timestamp_log = now_log rq\<rparr>],
       users :=
         map (\<lambda>r. if uid r = req_user_id cx
                   then r\<lparr>tokens_used := req_tokens_used cx + tokens res,
                          updated_at := now_update rq\<rparr>
                   else r)
           (users w),
       analytics_daily :=
         upsert_daily (date_of (now_today rq)) (req_user_id cx) res (analytics_daily w)\<rparr>"

text \<open>
  Lines 419 to 448. The \<^verbatim>\<open>INSERT\<close> binds the tokens of the call and the \<^verbatim>\<open>UPDATE\<close>
  binds the new usage; when either does not fit, the exception leaves the handler before
  \<^verbatim>\<open>conn.commit()\<close> and nothing is written. Otherwise the three statements are
  committed together.
\<close>

definition record_usage :: "req_ctx \<Rightarrow> request \<Rightarrow> result \<Rightarrow> world \<Rightarrow> py_exn + world" where
  "record_usage cx rq res w =
     (if \<not> sqlite_int (tokens res) then Inl OverflowError
      else if \<not> sqlite_int (req_tokens_used cx + tokens res) then Inl OverflowError
      else Inr (usage_writes cx rq res w))"

text \<open>\<^verbatim>\<open>data.get('prompt', '')\<close>, \<^verbatim>\<open>data.get('model', 'auto')\<close>, \<^verbatim>\<open>data.get('provider', 'auto')\<close>.\<close>

definition get_prompt :: "request \<Rightarrow> string" where
  "get_prompt rq = (case json_prompt rq of None \<Rightarrow> [] | Some s \<Rightarrow> s)"

definition get_model :: "request \<Rightarrow> string" where
  "get_model rq = (case json_model rq of None \<Rightarrow> ''auto'' | Some s \<Rightarrow> s)"

definition get_provider :: "request \<Rightarrow> string" where
  "get_provider rq = (case json_provider rq of None \<Rightarrow> ''auto'' | Some s \<Rightarrow> s)"

text \<open>The provider call of a request: its result, and which adapter was asked.\<close>

definition provider_call :: "request \<Rightarrow> result \<times> adapter_call" where
  "provider_call rq = routed_call (ups rq) (get_prompt rq) (get_model rq) (get_provider rq)"

definition chat :: handler where
  "chat cx rq w =
     (if get_prompt rq = [] then (Inl PromptRequired, w)
      else if req_tokens_used cx \<ge> req_tokens_included cx then (Inl TokenQuotaExceeded, w)
      else
        (let (res, call) = provider_call rq;
             w1 = w\<lparr>adapter_calls := adapter_calls w @ [call]\<rparr>;
             new_usage = req_tokens_used cx + tokens res
         in case record_usage cx rq res w1 of
              Inl e \<Rightarrow> (Inl (Unhandled e), w1)
            | Inr w2 \<Rightarrow>
                (case py_truediv new_usage (req_tokens_included cx) of
                   Inl e \<Rightarrow> (Inl (Unhandled e), w2)
                 | Inr q \<Rightarrow>
                     (Inr \<lparr>response_out = response res,
                           model_used = model res,
                           provider_out = provider res,
                           tokens_used_out = tokens res,
                           cost_out = cost res,
                           response_time_out = response_time res,
                           total_tokens_used = new_usage,
                           remaining_quota = max 0 (req_tokens_included cx - new_usage),
                           quota_percentage = min 100 (q * 100)\<rparr>,
                      w2))))"

text \<open>The route \<^verbatim>\<open>/api/chat\<close> with its two decorators.\<close>

definition api_chat :: "request \<Rightarrow> world \<Rightarrow> outcome \<times> world" where
  "api_chat = require_api_key (limiter_limit get_rate_limit chat)"

text \<open>The provider and the model the result of the routed call names.\<close>

definition selected :: "upstreams \<Rightarrow> string \<Rightarrow> string \<Rightarrow> string \<Rightarrow> string \<times> string" where
  "selected u prompt m p = (let r = fst (routed_call u prompt m p) in (provider r, model r))"

subsection \<open>Vocabulary for the properties\<close>

text \<open>
  The request carries a credential that is not empty, and \<open>u\<close> is the row the decorator
  reads for it, an active one: the request passes the two 401 checks.
\<close>

definition authenticated :: "request \<Rightarrow> world \<Rightarrow> user \<Rightarrow> bool" where
  "authenticated rq w u =
     (case request_api_key rq of
        None \<Rightarrow> False
      | Some k \<Rightarrow> k \<noteq> [] \<and> fetch_user w k = Some u \<and> is_active u)"

text \<open>The usage the handler sees for the row \<open>u\<close>: zero when the period has ended.\<close>

definition pre_call_usage :: "request \<Rightarrow> user \<Rightarrow> int" where
  "pre_call_usage rq u = (if now_check rq > tokens_reset_date u then 0 else tokens_used u)"

text \<open>The state the decorator hands to the handler.\<close>

definition rollover :: "request \<Rightarrow> user \<Rightarrow> world \<Rightarrow> world" where
  "rollover rq u w =
     (if now_check rq > tokens_reset_date u
      then reset_tokens (api_key u) (now_reset rq + days30) w
      else w)"

text \<open>
  Two requests that overlap: each is one run of the decorator's body followed by one run
  of the limited handler, and both decorators have read the store before either handler
  writes to it.
\<close>

definition overlapped :: "request \<Rightarrow> request \<Rightarrow> world \<Rightarrow> (outcome \<times> outcome) \<times> world" where
  "overlapped rqA rqB w =
     (let (a, w1) = authenticate rqA w;
          (b, w2) = authenticate rqB w1;
          (outA, w3) =
            (case a of
               Inl e \<Rightarrow> (Inl e, w2)
             | Inr cx \<Rightarrow> limiter_limit get_rate_limit chat cx rqA w2);
          (outB, w4) =
            (case b of
               Inl e \<Rightarrow> (Inl e, w3)
             | Inr cx \<Rightarrow> limiter_limit get_rate_limit chat cx rqB w3)
      in ((outA, outB), w4))"

subsection \<open>Sample stores and requests\<close>

text \<open>
  One account on the free tier inside its billing period, and a request of that account
  with no live upstream configured.
\<close>

definition demo_user :: user where
  "demo_user =
     \<lparr>uid = ''u1'', api_key = ''demo_key'', subscription_tier = ''free'',
      tokens_included = 10000, tokens_used = 0, tokens_reset_date = 1000, is_active = True,
      updated_at = 0\<rparr>"

definition demo_world :: world where
  "demo_world =
     \<lparr>users = [demo_user], usage_logs = [], analytics_daily = (\<lambda>k. None), adapter_calls = []\<rparr>"

definition demo_request :: request where
  "demo_request =
     \<lparr>header_api_key = Some ''demo_key'', arg_api_key = None,
      json_prompt = Some ''hello world'', json_model = None, json_provider = None,
      now_check = 10, now_reset = 11, now_log = 12, now_update = 13, now_today = 14,
      limiter_admits = (\<lambda>l. True),
      ups = \<lparr>openai_create = None, anthropic_create = None\<rparr>\<rparr>"

text \<open>
  The account one token below its quota, and a request whose prompt of four words costs
  five tokens on the OpenAI fallback.
\<close>

definition edge_user :: user where
  "edge_user = demo_user\<lparr>tokens_used := 9999\<rparr>"

definition edge_world :: world where
  "edge_world = demo_world\<lparr>users := [edge_user]\<rparr>"

definition four_words :: request where
  "four_words = demo_request\<lparr>json_prompt := Some ''one two three four''\<rparr>"

text \<open>
  The account with its quota used up in a period that has ended, and a request that
  arrives after the end of the period.
\<close>

definition spent_user :: user where
  "spent_user = demo_user\<lparr>tokens_used := 10000\<rparr>"

definition spent_world :: world where
  "spent_world = demo_world\<lparr>users := [spent_user]\<rparr>"

definition late_request :: request where
  "late_request = demo_request\<lparr>now_check := 2000, now_reset := 2001\<rparr>"

text \<open>An account whose quota is 0.\<close>

definition zero_quota_user :: user where
  "zero_quota_user = demo_user\<lparr>tokens_included := 0\<rparr>"

definition zero_quota_world :: world where
  "zero_quota_world = demo_world\<lparr>users := [zero_quota_user]\<rparr>"

text \<open>An account with a quota of 0 and 5 tokens used in a period that has ended.\<close>

definition lapsed_user :: user where
  "lapsed_user = demo_user\<lparr>tokens_included := 0, tokens_used := 5\<rparr>"

definition lapsed_world :: world where
  "lapsed_world = demo_world\<lparr>users := [lapsed_user]\<rparr>"

text \<open>The sample request with the Anthropic adapter named.\<close>

definition via_anthropic :: request where
  "via_anthropic = demo_request\<lparr>json_provider := Some ''anthropic''\<rparr>"

section \<open>Properties\<close>

subsection \<open>Provider routing\<close>

lemma call_openai_api_echo:
  "provider (call_openai_api u prompt m) = ''openai'' \<and> model (call_openai_api u prompt m) = m"
  by (simp add: call_openai_api_def call_openai_mock_def Let_def split: option.splits sum.splits)

lemma call_anthropic_api_echo:
  "provider (call_anthropic_api u prompt m) = ''anthropic'' \<and>
   model (call_anthropic_api u prompt m) = m"
  by (simp add: call_anthropic_api_def call_claude_mock_def Let_def split: option.splits sum.splits)

lemma selected_openai:
  "p = ''openai'' \<or> (p = ''auto'' \<and> prefix ''gpt'' m) \<Longrightarrow>
   selected u prompt m p = (''openai'', if m \<noteq> ''auto'' then m else ''gpt-3.5-turbo'')"
  by (simp add: selected_def routed_call_def Let_def call_openai_api_echo)

lemma selected_anthropic:
  "\<not> (p = ''openai'' \<or> (p = ''auto'' \<and> prefix ''gpt'' m)) \<Longrightarrow>
   p = ''anthropic'' \<or> (p = ''auto'' \<and> prefix ''claude'' m) \<Longrightarrow>
   selected u prompt m p =
     (''anthropic'', if m \<noteq> ''auto'' then m else ''claude-3-sonnet-20240229'')"
  by (auto simp add: selected_def routed_call_def Let_def call_anthropic_api_echo)

lemma selected_default:
  "\<not> (p = ''openai'' \<or> (p = ''auto'' \<and> prefix ''gpt'' m)) \<Longrightarrow>
   \<not> (p = ''anthropic'' \<or> (p = ''auto'' \<and> prefix ''claude'' m)) \<Longrightarrow>
   selected u prompt m p = (''openai'', ''gpt-3.5-turbo'')"
  by (auto simp add: selected_def routed_call_def Let_def call_openai_api_echo)

lemma selected_pure: "selected u prompt m p = selected u' prompt' m p"
proof (cases "p = ''openai'' \<or> (p = ''auto'' \<and> prefix ''gpt'' m)")
  case True
  then show ?thesis by (simp add: selected_openai [OF True])
next
  case no_openai: False
  show ?thesis
  proof (cases "p = ''anthropic'' \<or> (p = ''auto'' \<and> prefix ''claude'' m)")
    case True
    show ?thesis by (simp add: selected_anthropic [OF no_openai True])
  next
    case False
    show ?thesis by (simp add: selected_default [OF no_openai False])
  qed
qed

text \<open>
  C6. The routing is a function of the requested model and provider alone: neither the
  upstream capabilities nor the prompt change the provider and model that serve a request.
  The model \<open>gpt-4\<close> with provider \<open>auto\<close> is served by \<open>openai\<close> as \<open>gpt-4\<close>;
  \<open>claude-3-haiku-20240307\<close> with \<open>auto\<close> by \<open>anthropic\<close> under its own name; \<open>auto\<close>
  with \<open>auto\<close>, and every model that starts with neither \<open>gpt\<close> nor \<open>claude\<close>, by the
  default \<open>openai\<close> with \<open>gpt-3.5-turbo\<close>. A provider named in the request is the one
  called, with its default model when the model is \<open>auto\<close>.
\<close>

theorem provider_routing:
  "selected u prompt m p = selected u' prompt' m p \<and>
   selected u prompt ''gpt-4'' ''auto'' = (''openai'', ''gpt-4'') \<and>
   selected u prompt ''claude-3-haiku-20240307'' ''auto'' =
     (''anthropic'', ''claude-3-haiku-20240307'') \<and>
   selected u prompt ''auto'' ''auto'' = (''openai'', ''gpt-3.5-turbo'') \<and>
   (\<not> prefix ''gpt'' m \<and> \<not> prefix ''claude'' m \<longrightarrow>
      selected u prompt m ''auto'' = (''openai'', ''gpt-3.5-turbo'')) \<and>
   selected u prompt m ''openai'' =
     (''openai'', if m = ''auto'' then ''gpt-3.5-turbo'' else m) \<and>
   selected u prompt m ''anthropic'' =
     (''anthropic'', if m = ''auto'' then ''claude-3-sonnet-20240229'' else m)"
proof (intro conjI impI)
  show "selected u prompt m p = selected u' prompt' m p" by (rule selected_pure)
  show "selected u prompt ''gpt-4'' ''auto'' = (''openai'', ''gpt-4'')"
    by (simp add: selected_openai)
  show "selected u prompt ''claude-3-haiku-20240307'' ''auto'' =
     (''anthropic'', ''claude-3-haiku-20240307'')"
    by (simp add: selected_anthropic)
  show "selected u prompt ''auto'' ''auto'' = (''openai'', ''gpt-3.5-turbo'')"
    by (simp add: selected_default)
  show "selected u prompt m ''auto'' = (''openai'', ''gpt-3.5-turbo'')"
    if "\<not> prefix ''gpt'' m \<and> \<not> prefix ''claude'' m"
    using that by (simp add: selected_default)
  show "selected u prompt m ''openai'' =
     (''openai'', if m = ''auto'' then ''gpt-3.5-turbo'' else m)"
    by (simp add: selected_openai)
  show "selected u prompt m ''anthropic'' =
     (''anthropic'', if m = ''auto'' then ''claude-3-sonnet-20240229'' else m)"
    by (simp add: selected_anthropic)
qed

theorem provider_routing_witness:
  "selected \<lparr>openai_create = None, anthropic_create = None\<rparr> ''hi'' ''llama-2'' ''auto'' =
     (''openai'', ''gpt-3.5-turbo'') \<and>
   \<not> prefix ''gpt'' ''llama-2'' \<and> \<not> prefix ''claude'' ''llama-2''"
  using provider_routing [of "\<lparr>openai_create = None, anthropic_create = None\<rparr>" "''hi''"
      "''llama-2''" "''auto''" "\<lparr>openai_create = None, anthropic_create = None\<rparr>" "''hi''"]
  by simp

subsection \<open>The fallback responder\<close>

lemma round6_micro: "round6 (real_of_int k / 1000000) = real_of_int k / 1000000"
  by (simp add: round6_def)

lemma openai_cost_micro:
  "calculate_openai_cost m n =
     real_of_int (n * (if m = ''gpt-4'' then 30 else if m = ''gpt-3.5-turbo'' then 2
                       else if m = ''gpt-4-turbo'' then 10 else 2)) / 1000000"
  by (simp add: calculate_openai_cost_def)

lemma anthropic_cost_micro:
  "calculate_anthropic_cost m n =
     real_of_int (n * (if m = ''claude-3-sonnet-20240229'' then 15
                       else if m = ''claude-3-haiku-20240307'' then 1
                       else if m = ''claude-3-opus-20240229'' then 75 else 15)) / 1000000"
  by (simp add: calculate_anthropic_cost_def)

lemma round6_openai_cost: "round6 (calculate_openai_cost m n) = calculate_openai_cost m n"
  by (simp only: openai_cost_micro round6_micro)

lemma round6_anthropic_cost:
  "round6 (calculate_anthropic_cost m n) = calculate_anthropic_cost m n"
  by (simp only: anthropic_cost_micro round6_micro)

lemma openai_falls_back:
  "openai_create u = None \<or> (\<exists>create e. openai_create u = Some create \<and> create m prompt = Inl e)
   \<Longrightarrow> call_openai_api u prompt m = call_openai_mock prompt m"
  by (auto simp add: call_openai_api_def)

lemma anthropic_falls_back:
  "anthropic_create u = None \<or>
     (\<exists>create e. anthropic_create u = Some create \<and> create m prompt = Inl e)
   \<Longrightarrow> call_anthropic_api u prompt m = call_claude_mock prompt m"
  by (auto simp add: call_anthropic_api_def)

text \<open>
  C5. For every prompt and model, when the live capability is not configured, or raises
  whatever error on that call, the adapter returns the fallback result; the result type has
  no error case, so nothing is raised to the caller. The fallback result is determined by the
  prompt and the model: the placeholder text around the model and the first 50 characters
  of the prompt, the token estimate from the number of words of the prompt (times 1.3 for
  OpenAI, times 1.2 for Anthropic, truncated), the cost of that estimate at the rate of the
  model, the nominal latency (0.5 and 0.7 seconds), and the same fields as a live result.
\<close>

theorem fallback_when_upstream_fails:
  "(openai_create u = None \<or>
      (\<exists>create e. openai_create u = Some create \<and> create m prompt = Inl e) \<longrightarrow>
    call_openai_api u prompt m =
      \<lparr>response = ''[MOCK] This is a simulated response from '' @ m @ '' to: '' @ [CHR 39] @
                    take 50 prompt @ ''...'' @ [CHR 39],
       tokens = 13 * int (length (py_split prompt)) div 10,
       cost = calculate_openai_cost m (13 * int (length (py_split prompt)) div 10),
       model = m, response_time = 1 / 2, provider = ''openai''\<rparr>) \<and>
   (anthropic_create u = None \<or>
      (\<exists>create e. anthropic_create u = Some create \<and> create m prompt = Inl e) \<longrightarrow>
    call_anthropic_api u prompt m =
      \<lparr>response = ''[MOCK] This is a simulated response from '' @ m @ '' to: '' @ [CHR 39] @
                    take 50 prompt @ ''...'' @ [CHR 39],
       tokens = 12 * int (length (py_split prompt)) div 10,
       cost = calculate_anthropic_cost m (12 * int (length (py_split prompt)) div 10),
       model = m, response_time = 7 / 10, provider = ''anthropic''\<rparr>)"
proof (intro conjI impI)
  assume "openai_create u = None \<or>
      (\<exists>create e. openai_create u = Some create \<and> create m prompt = Inl e)"
  then have "call_openai_api u prompt m = call_openai_mock prompt m"
    by (rule openai_falls_back)
  then show "call_openai_api u prompt m =
      \<lparr>response = ''[MOCK] This is a simulated response from '' @ m @ '' to: '' @ [CHR 39] @
                    take 50 prompt @ ''...'' @ [CHR 39],
       tokens = 13 * int (length (py_split prompt)) div 10,
       cost = calculate_openai_cost m (13 * int (length (py_split prompt)) div 10),
       model = m, response_time = 1 / 2, provider = ''openai''\<rparr>"
    by (simp add: call_openai_mock_def mock_response_def Let_def round6_openai_cost)
next
  assume "anthropic_create u = None \<or>
      (\<exists>create e. anthropic_create u = Some create \<and> create m prompt = Inl e)"
  then have "call_anthropic_api u prompt m = call_claude_mock prompt m"
    by (rule anthropic_falls_back)
  then show "call_anthropic_api u prompt m =
      \<lparr>response = ''[MOCK] This is a simulated response from '' @ m @ '' to: '' @ [CHR 39] @
                    take 50 prompt @ ''...'' @ [CHR 39],
       tokens = 12 * int (length (py_split prompt)) div 10,
       cost = calculate_anthropic_cost m (12 * int (length (py_split prompt)) div 10),
       model = m, response_time = 7 / 10, provider = ''anthropic''\<rparr>"
    by (simp add: call_claude_mock_def mock_response_def Let_def round6_anthropic_cost)
qed

theorem fallback_when_upstream_fails_witness:
  "call_openai_api
     \<lparr>openai_create = Some (\<lambda>m prompt. Inl (UpstreamError ''timeout'')),
      anthropic_create = None\<rparr> ''hello world'' ''gpt-4'' =
     \<lparr>response = ''[MOCK] This is a simulated response from gpt-4 to: '' @ [CHR 39] @
                   ''hello world...'' @ [CHR 39],
      tokens = 2, cost = 6 / 100000, model = ''gpt-4'', response_time = 1 / 2,
      provider = ''openai''\<rparr> \<and>
   call_anthropic_api
     \<lparr>openai_create = Some (\<lambda>m prompt. Inl (UpstreamError ''timeout'')),
      anthropic_create = None\<rparr> ''hello world'' ''gpt-4'' =
     \<lparr>response = ''[MOCK] This is a simulated response from gpt-4 to: '' @ [CHR 39] @
                   ''hello world...'' @ [CHR 39],
      tokens = 2, cost = 3 / 100000, model = ''gpt-4'', response_time = 7 / 10,
      provider = ''anthropic''\<rparr>"
  using fallback_when_upstream_fails
    [of "\<lparr>openai_create = Some (\<lambda>m prompt. Inl (UpstreamError ''timeout'')),
          anthropic_create = None\<rparr>" "''gpt-4''" "''hello world''"]
  by (simp add: py_split_def py_isspace_def calculate_openai_cost_def
      calculate_anthropic_cost_def)

subsection \<open>Rate limit resolution\<close>

lemma find_map_same_key:
  "(\<And>x. P (f x) = P x) \<Longrightarrow> find P (map f xs) = map_option f (find P xs)"
  by (induction xs) auto

lemma fetch_user_checkout:
  assumes "fetch_user w k = Some u"
    and "tier_of_price price = Some t"
    and "map_of SUBSCRIPTION_TIERS t = Some pol"
  shows "fetch_user (checkout_completed price (uid u) now w) k =
    Some (u\<lparr>subscription_tier := t, tokens_included := tokens_per_month pol,
            updated_at := now\<rparr>)"
proof -
  let ?f = "\<lambda>r. if uid r = uid u
                 then r\<lparr>subscription_tier := t, tokens_included := tokens_per_month pol,
                        updated_at := now\<rparr>
                 else r"
  have "find (\<lambda>r. api_key r = k) (map ?f (users w)) =
      map_option ?f (find (\<lambda>r. api_key r = k) (users w))"
    by (rule find_map_same_key) simp
  with assms show ?thesis
    by (simp add: fetch_user_def checkout_completed_def)
qed

text \<open>
  C9. The limiter asks \<open>get_rate_limit\<close> at every request, against the store as it is
  then. A request with no credential (or an empty one), with a credential no account has,
  or of an account whose tier is not one of the table, gets \<open>100/hour\<close>; an account on a
  tier of the table gets the \<open>rate_limit\<close> of that tier. After the checkout webhook has
  written a new tier to the account, the next request of the account gets the
  \<open>rate_limit\<close> of the new tier.
\<close>

theorem rate_limit_resolved_per_request:
  "limiter_limit get_rate_limit f cx rq w =
     (if limiter_admits rq (get_rate_limit rq w) then f cx rq w else (Inl RateLimitExceeded, w)) \<and>
   (request_api_key rq = None \<or> request_api_key rq = Some [] \<longrightarrow>
      get_rate_limit rq w = ''100/hour'') \<and>
   (request_api_key rq = Some k \<and> fetch_user w k = None \<longrightarrow>
      get_rate_limit rq w = ''100/hour'') \<and>
   (request_api_key rq = Some k \<and> k \<noteq> [] \<and> fetch_user w k = Some u \<longrightarrow>
      get_rate_limit rq w =
        (if subscription_tier u = ''free'' then ''100/hour''
         else if subscription_tier u = ''starter'' then ''1000/hour''
         else if subscription_tier u = ''pro'' then ''5000/hour''
         else if subscription_tier u = ''enterprise'' then ''20000/hour''
         else ''100/hour'')) \<and>
   (request_api_key rq = Some k \<and> k \<noteq> [] \<and> fetch_user w k = Some u \<and>
    tier_of_price price = Some t \<and> map_of SUBSCRIPTION_TIERS t = Some pol \<longrightarrow>
      get_rate_limit rq (checkout_completed price (uid u) now w) = rate_limit pol)"
proof (intro conjI impI)
  show "limiter_limit get_rate_limit f cx rq w =
     (if limiter_admits rq (get_rate_limit rq w) then f cx rq w else (Inl RateLimitExceeded, w))"
    by (simp add: limiter_limit_def)
  show "get_rate_limit rq w = ''100/hour''"
    if "request_api_key rq = None \<or> request_api_key rq = Some []"
    using that by (auto simp add: get_rate_limit_def)
  show "get_rate_limit rq w = ''100/hour''"
    if "request_api_key rq = Some k \<and> fetch_user w k = None"
    using that by (simp add: get_rate_limit_def)
  show "get_rate_limit rq w =
        (if subscription_tier u = ''free'' then ''100/hour''
         else if subscription_tier u = ''starter'' then ''1000/hour''
         else if subscription_tier u = ''pro'' then ''5000/hour''
         else if subscription_tier u = ''enterprise'' then ''20000/hour''
         else ''100/hour'')"
    if "request_api_key rq = Some k \<and> k \<noteq> [] \<and> fetch_user w k = Some u"
    using that by (simp add: get_rate_limit_def SUBSCRIPTION_TIERS_def)
  show "get_rate_limit rq (checkout_completed price (uid u) now w) = rate_limit pol"
    if h: "request_api_key rq = Some k \<and> k \<noteq> [] \<and> fetch_user w k = Some u \<and>
      tier_of_price price = Some t \<and> map_of SUBSCRIPTION_TIERS t = Some pol"
  proof -
    from h have "fetch_user (checkout_completed price (uid u) now w) k =
        Some (u\<lparr>subscription_tier := t, tokens_included := tokens_per_month pol,
                updated_at := now\<rparr>)"
      by (simp add: fetch_user_checkout)
    with h show ?thesis by (simp add: get_rate_limit_def)
  qed
qed

theorem rate_limit_resolved_per_request_witness:
  "get_rate_limit demo_request demo_world = ''100/hour'' \<and>
   get_rate_limit demo_request (checkout_completed ''price_pro_monthly'' ''u1'' 5 demo_world) =
     ''5000/hour'' \<and>
   get_rate_limit (demo_request\<lparr>header_api_key := None\<rparr>) demo_world = ''100/hour'' \<and>
   get_rate_limit (demo_request\<lparr>header_api_key := Some ''nobody''\<rparr>) demo_world = ''100/hour''"
proof -
  have k: "request_api_key demo_request = Some ''demo_key''"
    by (simp add: request_api_key_def demo_request_def)
  have u: "fetch_user demo_world ''demo_key'' = Some demo_user"
    by (simp add: fetch_user_def demo_world_def demo_user_def)
  have t: "tier_of_price ''price_pro_monthly'' = Some ''pro''"
    by (simp add: tier_of_price_def SUBSCRIPTION_TIERS_def)
  have p: "map_of SUBSCRIPTION_TIERS ''pro'' =
      Some \<lparr>tokens_per_month = 1000000, rate_limit = ''5000/hour'',
            stripe_price_id = Some ''price_pro_monthly''\<rparr>"
    by (simp add: SUBSCRIPTION_TIERS_def)
  have n: "request_api_key (demo_request\<lparr>header_api_key := None\<rparr>) = None"
    by (simp add: request_api_key_def demo_request_def)
  have x: "request_api_key (demo_request\<lparr>header_api_key := Some ''nobody''\<rparr>) = Some ''nobody''"
    by (simp add: request_api_key_def demo_request_def)
  have y: "fetch_user demo_world ''nobody'' = None"
    by (simp add: fetch_user_def demo_world_def demo_user_def)
  have i: "uid demo_user = ''u1''" and f: "subscription_tier demo_user = ''free''"
    by (simp_all add: demo_user_def)
  from rate_limit_resolved_per_request
    [where rq = demo_request and w = demo_world and k = "''demo_key''" and u = demo_user
      and price = "''price_pro_monthly''" and t = "''pro''" and now = 5] k u t p i f
  have a: "get_rate_limit demo_request demo_world = ''100/hour''"
    and b: "get_rate_limit demo_request
        (checkout_completed ''price_pro_monthly'' ''u1'' 5 demo_world) = ''5000/hour''"
    by simp_all
  from rate_limit_resolved_per_request
    [where rq = "demo_request\<lparr>header_api_key := None\<rparr>" and w = demo_world] n
  have c: "get_rate_limit (demo_request\<lparr>header_api_key := None\<rparr>) demo_world = ''100/hour''"
    by simp
  from rate_limit_resolved_per_request
    [where rq = "demo_request\<lparr>header_api_key := Some ''nobody''\<rparr>" and w = demo_world
      and k = "''nobody''"] x y
  have d: "get_rate_limit (demo_request\<lparr>header_api_key := Some ''nobody''\<rparr>) demo_world =
      ''100/hour''"
    by simp
  from a b c d show ?thesis by simp
qed

subsection \<open>The handler, case by case\<close>

lemma chat_prompt_required: "get_prompt rq = [] \<Longrightarrow> chat cx rq w = (Inl PromptRequired, w)"
  by (simp add: chat_def)

lemma chat_quota_exceeded:
  "get_prompt rq \<noteq> [] \<Longrightarrow> req_tokens_included cx \<le> req_tokens_used cx \<Longrightarrow>
   chat cx rq w = (Inl TokenQuotaExceeded, w)"
  by (simp add: chat_def)

lemma chat_admitted_call:
  "get_prompt rq \<noteq> [] \<Longrightarrow> req_tokens_used cx < req_tokens_included cx \<Longrightarrow>
   adapter_calls (snd (chat cx rq w)) = adapter_calls w @ [snd (provider_call rq)]"
  by (simp add: chat_def Let_def split_beta record_usage_def usage_writes_def py_truediv_def)

lemma chat_overflow:
  "get_prompt rq \<noteq> [] \<Longrightarrow> req_tokens_used cx < req_tokens_included cx \<Longrightarrow>
   \<not> (sqlite_int (tokens (fst (provider_call rq))) \<and>
      sqlite_int (req_tokens_used cx + tokens (fst (provider_call rq)))) \<Longrightarrow>
   chat cx rq w =
     (Inl (Unhandled OverflowError),
      w\<lparr>adapter_calls := adapter_calls w @ [snd (provider_call rq)]\<rparr>)"
  by (auto simp add: chat_def Let_def split_beta record_usage_def)

lemma chat_admitted_state:
  "get_prompt rq \<noteq> [] \<Longrightarrow> req_tokens_used cx < req_tokens_included cx \<Longrightarrow>
   sqlite_int (tokens (fst (provider_call rq))) \<Longrightarrow>
   sqlite_int (req_tokens_used cx + tokens (fst (provider_call rq))) \<Longrightarrow>
   snd (chat cx rq w) =
     usage_writes cx rq (fst (provider_call rq))
       (w\<lparr>adapter_calls := adapter_calls w @ [snd (provider_call rq)]\<rparr>)"
  by (simp add: chat_def Let_def split_beta record_usage_def py_truediv_def)

lemma chat_admitted_reply:
  "get_prompt rq \<noteq> [] \<Longrightarrow> req_tokens_used cx < req_tokens_included cx \<Longrightarrow>
   req_tokens_included cx \<noteq> 0 \<Longrightarrow>
   sqlite_int (tokens (fst (provider_call rq))) \<Longrightarrow>
   sqlite_int (req_tokens_used cx + tokens (fst (provider_call rq))) \<Longrightarrow>
   fst (chat cx rq w) =
     Inr \<lparr>response_out = response (fst (provider_call rq)),
          model_used = model (fst (provider_call rq)),
          provider_out = provider (fst (provider_call rq)),
          tokens_used_out = tokens (fst (provider_call rq)),
          cost_out = cost (fst (provider_call rq)),
          response_time_out = response_time (fst (provider_call rq)),
          total_tokens_used = req_tokens_used cx + tokens (fst (provider_call rq)),
          remaining_quota =
            max 0 (req_tokens_included cx - (req_tokens_used cx + tokens (fst (provider_call rq)))),
          quota_percentage =
            min 100
              (real_of_int (req_tokens_used cx + tokens (fst (provider_call rq))) /
                 real_of_int (req_tokens_included cx) * 100)\<rparr>"
  by (simp add: chat_def Let_def split_beta record_usage_def py_truediv_def)

lemma chat_admitted_zero:
  "get_prompt rq \<noteq> [] \<Longrightarrow> req_tokens_used cx < req_tokens_included cx \<Longrightarrow>
   req_tokens_included cx = 0 \<Longrightarrow>
   sqlite_int (tokens (fst (provider_call rq))) \<Longrightarrow>
   sqlite_int (req_tokens_used cx + tokens (fst (provider_call rq))) \<Longrightarrow>
   fst (chat cx rq w) = Inl (Unhandled ZeroDivisionError)"
  by (simp add: chat_def Let_def split_beta record_usage_def py_truediv_def)

lemma chat_not_quota_exceeded:
  "req_tokens_used cx < req_tokens_included cx \<Longrightarrow> fst (chat cx rq w) \<noteq> Inl TokenQuotaExceeded"
  by (simp add: chat_def Let_def split_beta record_usage_def py_truediv_def)

subsection \<open>Rows after an update\<close>

lemma fetch_user_key: "fetch_user w k = Some u \<Longrightarrow> api_key u = k"
  by (auto simp add: fetch_user_def find_Some_iff)

lemma fetch_user_reset_tokens:
  "fetch_user w k = Some u \<Longrightarrow>
   fetch_user (reset_tokens k' d w) k =
     Some (if k = k' then u\<lparr>tokens_used := 0, tokens_reset_date := d\<rparr> else u)"
proof -
  assume a: "fetch_user w k = Some u"
  let ?f = "\<lambda>r. if api_key r = k' then r\<lparr>tokens_used := 0, tokens_reset_date := d\<rparr> else r"
  have "find (\<lambda>r. api_key r = k) (map ?f (users w)) =
      map_option ?f (find (\<lambda>r. api_key r = k) (users w))"
    by (rule find_map_same_key) simp
  with a fetch_user_key [OF a] show ?thesis
    by (simp add: fetch_user_def reset_tokens_def)
qed

lemma fetch_user_usage_writes:
  "fetch_user w k = Some u \<Longrightarrow>
   fetch_user (usage_writes cx rq res w) k =
     Some (if uid u = req_user_id cx
           then u\<lparr>tokens_used := req_tokens_used cx + tokens res, updated_at := now_update rq\<rparr>
           else u)"
proof -
  assume a: "fetch_user w k = Some u"
  let ?f = "\<lambda>r. if uid r = req_user_id cx
                 then r\<lparr>tokens_used := req_tokens_used cx + tokens res,
                        updated_at := now_update rq\<rparr>
                 else r"
  have "find (\<lambda>r. api_key r = k) (map ?f (users w)) =
      map_option ?f (find (\<lambda>r. api_key r = k) (users w))"
    by (rule find_map_same_key) simp
  with a show ?thesis
    by (simp add: fetch_user_def usage_writes_def)
qed

lemma fetch_user_adapter_calls [simp]:
  "fetch_user (w\<lparr>adapter_calls := c\<rparr>) k = fetch_user w k"
  by (simp add: fetch_user_def)

subsection \<open>The decorators\<close>

lemma authenticate_authenticated:
  "authenticated rq w u \<Longrightarrow>
   authenticate rq w =
     (Inr (request_attrs (u\<lparr>tokens_used := pre_call_usage rq u\<rparr>)), rollover rq u w)"
  by (auto simp add: authenticated_def authenticate_def pre_call_usage_def rollover_def
      fetch_user_key split: option.splits)

lemma authenticate_rejected:
  "\<not> (\<exists>u. authenticated rq w u) \<Longrightarrow>
   authenticate rq w = (Inl ApiKeyRequired, w) \<or>
   authenticate rq w = (Inl InvalidOrInactiveApiKey, w)"
  by (auto simp add: authenticated_def authenticate_def split: option.splits)

lemma api_chat_authenticated:
  "authenticated rq w u \<Longrightarrow>
   api_chat rq w =
     limiter_limit get_rate_limit chat (request_attrs (u\<lparr>tokens_used := pre_call_usage rq u\<rparr>))
       rq (rollover rq u w)"
  by (simp add: api_chat_def require_api_key_def authenticate_authenticated)

lemma api_chat_rejected:
  "\<not> (\<exists>u. authenticated rq w u) \<Longrightarrow>
   api_chat rq w = (Inl ApiKeyRequired, w) \<or> api_chat rq w = (Inl InvalidOrInactiveApiKey, w)"
  using authenticate_rejected [of rq w]
  by (auto simp add: api_chat_def require_api_key_def)

lemma limited_admits:
  "limiter_admits rq (get_rate_limit rq w) \<Longrightarrow> limiter_limit get_rate_limit f cx rq w = f cx rq w"
  by (simp add: limiter_limit_def)

lemma authenticated_rollover:
  "authenticated rq w u \<Longrightarrow>
   fetch_user (rollover rq u w) (api_key u) =
     Some (if now_check rq > tokens_reset_date u
           then u\<lparr>tokens_used := 0, tokens_reset_date := now_reset rq + days30\<rparr> else u)"
  by (auto simp add: authenticated_def rollover_def fetch_user_reset_tokens fetch_user_key
      split: option.splits)

subsection \<open>Admission\<close>

lemma admitted_then_denied:
  assumes au: "authenticated rq1 w u"
    and p1: "now_check rq1 \<le> tokens_reset_date u"
    and l1: "\<forall>l. limiter_admits rq1 l"
    and n1: "get_prompt rq1 \<noteq> []"
    and k2: "request_api_key rq2 = request_api_key rq1"
    and p2: "now_check rq2 \<le> tokens_reset_date u"
    and l2: "\<forall>l. limiter_admits rq2 l"
    and n2: "get_prompt rq2 \<noteq> []"
    and used: "tokens_used u = tokens_included u - 1"
    and five: "tokens (fst (provider_call rq1)) = 5"
    and fits: "sqlite_int (tokens_included u + 4)"
  shows "fst (api_chat rq1 w) \<noteq> Inl TokenQuotaExceeded \<and>
    adapter_calls (snd (api_chat rq1 w)) = adapter_calls w @ [snd (provider_call rq1)] \<and>
    fetch_user (snd (api_chat rq1 w)) (api_key u) =
      Some (u\<lparr>tokens_used := tokens_included u + 4, updated_at := now_update rq1\<rparr>) \<and>
    api_chat rq2 (snd (api_chat rq1 w)) = (Inl TokenQuotaExceeded, snd (api_chat rq1 w))"
proof -
  let ?cx = "request_attrs (u\<lparr>tokens_used := pre_call_usage rq1 u\<rparr>)"
  let ?w1 = "snd (api_chat rq1 w)"
  let ?u1 = "u\<lparr>tokens_used := tokens_included u + 4, updated_at := now_update rq1\<rparr>"
  from p1 have pre: "pre_call_usage rq1 u = tokens_used u" and ro: "rollover rq1 u w = w"
    by (simp_all add: pre_call_usage_def rollover_def)
  from au l1 pre ro have run: "api_chat rq1 w = chat ?cx rq1 w"
    by (simp add: api_chat_authenticated limited_admits)
  have lt: "req_tokens_used ?cx < req_tokens_included ?cx"
    using used pre by (simp add: request_attrs_def)
  have s5: "sqlite_int (tokens (fst (provider_call rq1)))"
    by (simp add: five sqlite_int_def)
  have sn: "sqlite_int (req_tokens_used ?cx + tokens (fst (provider_call rq1)))"
    using fits used pre five by (simp add: request_attrs_def add.commute)
  have a: "fst (api_chat rq1 w) \<noteq> Inl TokenQuotaExceeded"
    using lt by (simp add: run chat_not_quota_exceeded)
  have st: "?w1 = usage_writes ?cx rq1 (fst (provider_call rq1))
      (w\<lparr>adapter_calls := adapter_calls w @ [snd (provider_call rq1)]\<rparr>)"
    using n1 lt s5 sn by (simp add: run chat_admitted_state)
  have b: "adapter_calls ?w1 = adapter_calls w @ [snd (provider_call rq1)]"
    using n1 lt by (simp add: run chat_admitted_call)
  from au have fu: "fetch_user w (api_key u) = Some u"
    by (auto simp add: authenticated_def fetch_user_key split: option.splits)
  have c: "fetch_user ?w1 (api_key u) = Some ?u1"
    using fu used pre five by (simp add: st fetch_user_usage_writes request_attrs_def)
  from au k2 have key: "request_api_key rq2 = Some (api_key u)" and ne: "api_key u \<noteq> []"
    and act: "is_active u"
    by (auto simp add: authenticated_def fetch_user_key split: option.splits)
  from c key ne act have au2: "authenticated rq2 ?w1 ?u1"
    by (simp add: authenticated_def)
  from p2 have pre2: "pre_call_usage rq2 ?u1 = tokens_included u + 4"
    and ro2: "rollover rq2 ?u1 ?w1 = ?w1"
    by (simp_all add: pre_call_usage_def rollover_def)
  have "api_chat rq2 ?w1 =
      chat (request_attrs (?u1\<lparr>tokens_used := pre_call_usage rq2 ?u1\<rparr>)) rq2 ?w1"
    using l2 ro2 by (simp add: api_chat_authenticated [OF au2] limited_admits)
  also have "\<dots> = (Inl TokenQuotaExceeded, ?w1)"
    using n2 pre2 by (simp add: chat_quota_exceeded request_attrs_def)
  finally have d: "api_chat rq2 ?w1 = (Inl TokenQuotaExceeded, ?w1)" .
  from a b c d show ?thesis by simp
qed

lemma four_words_facts:
  "get_prompt four_words \<noteq> []"
  "tokens (fst (provider_call four_words)) = 5"
  "request_api_key four_words = Some ''demo_key''"
  "now_check four_words = 10"
  "now_update four_words = 13"
  "limiter_admits four_words l"
  by (simp_all add: four_words_def demo_request_def get_prompt_def get_model_def
      get_provider_def provider_call_def routed_call_def call_openai_api_def
      call_openai_mock_def py_split_def py_isspace_def request_api_key_def Let_def)

lemma edge_world_facts:
  "authenticated four_words edge_world edge_user"
  "tokens_reset_date edge_user = 1000"
  "tokens_used edge_user = 9999"
  "tokens_included edge_user = 10000"
  "api_key edge_user = ''demo_key''"
  by (simp_all add: authenticated_def four_words_facts fetch_user_def edge_world_def
      demo_world_def edge_user_def demo_user_def)

lemma demo_four_words_facts:
  "authenticated four_words demo_world demo_user"
  "tokens_reset_date demo_user = 1000"
  "tokens_used demo_user = 0"
  "tokens_included demo_user = 10000"
  "api_key demo_user = ''demo_key''"
  by (simp_all add: authenticated_def four_words_facts fetch_user_def demo_world_def
      demo_user_def)

lemma four_words_call:
  "fst (provider_call four_words) =
     \<lparr>response = mock_response ''gpt-3.5-turbo'' ''one two three four'', tokens = 5,
      cost = 1 / 100000, model = ''gpt-3.5-turbo'', response_time = 1 / 2,
      provider = ''openai''\<rparr>"
proof -
  have co: "calculate_openai_cost ''gpt-3.5-turbo'' 5 = 1 / 100000"
    by (simp add: calculate_openai_cost_def)
  show ?thesis
    by (simp add: four_words_def demo_request_def get_prompt_def get_model_def
        get_provider_def provider_call_def routed_call_def call_openai_api_def
        call_openai_mock_def py_split_def py_isspace_def Let_def round6_openai_cost co)
qed

lemma sqlite_int_small: "sqlite_int 2" "sqlite_int 4" "sqlite_int 5" "sqlite_int 7"
  "sqlite_int 10" "sqlite_int 10004"
  by (simp_all add: sqlite_int_def)

lemma edge_chat_reply:
  "fst (chat (request_attrs edge_user) four_words edge_world) =
     Inr \<lparr>response_out = mock_response ''gpt-3.5-turbo'' ''one two three four'',
          model_used = ''gpt-3.5-turbo'', provider_out = ''openai'', tokens_used_out = 5,
          cost_out = 1 / 100000, response_time_out = 1 / 2, total_tokens_used = 10004,
          remaining_quota = 0, quota_percentage = 100\<rparr>"
  by (simp add: chat_admitted_reply four_words_facts edge_world_facts request_attrs_def
      four_words_call sqlite_int_small)

text \<open>
  C2. For a request with a prompt, the handler answers with the quota rejection exactly
  when the usage it was handed is at least the quota; the state is then left as it was (no
  adapter is called). When the usage is below the quota the request is admitted whatever
  the call then costs: the adapter is called once, and the whole cost is debited (the
  usage row, the debit and the daily row are written) whenever the tokens and the new usage
  fit the 64-bit integers of the store; when they do not, the handler ends in the
  \<open>OverflowError\<close> with nothing written. So an account one token below its quota, inside
  its billing period and past the rate limiter, whose call costs 5 tokens, is admitted, ends
  4 tokens above its quota (a value that fits), and its next request is rejected for quota.
\<close>

theorem admission_on_pre_call_usage:
  "(get_prompt rq \<noteq> [] \<longrightarrow>
      (fst (chat cx rq w) = Inl TokenQuotaExceeded \<longleftrightarrow>
         req_tokens_included cx \<le> req_tokens_used cx) \<and>
      (req_tokens_included cx \<le> req_tokens_used cx \<longrightarrow> snd (chat cx rq w) = w) \<and>
      (req_tokens_used cx < req_tokens_included cx \<longrightarrow>
         adapter_calls (snd (chat cx rq w)) = adapter_calls w @ [snd (provider_call rq)] \<and>
         (sqlite_int (tokens (fst (provider_call rq))) \<and>
          sqlite_int (req_tokens_used cx + tokens (fst (provider_call rq))) \<longrightarrow>
            snd (chat cx rq w) =
              usage_writes cx rq (fst (provider_call rq))
                (w\<lparr>adapter_calls := adapter_calls w @ [snd (provider_call rq)]\<rparr>)) \<and>
         (\<not> (sqlite_int (tokens (fst (provider_call rq))) \<and>
             sqlite_int (req_tokens_used cx + tokens (fst (provider_call rq)))) \<longrightarrow>
            chat cx rq w =
              (Inl (Unhandled OverflowError),
               w\<lparr>adapter_calls := adapter_calls w @ [snd (provider_call rq)]\<rparr>)))) \<and>
   (authenticated rq1 w u \<and> now_check rq1 \<le> tokens_reset_date u \<and>
    (\<forall>l. limiter_admits rq1 l) \<and> get_prompt rq1 \<noteq> [] \<and>
    request_api_key rq2 = request_api_key rq1 \<and> now_check rq2 \<le> tokens_reset_date u \<and>
    (\<forall>l. limiter_admits rq2 l) \<and> get_prompt rq2 \<noteq> [] \<and>
    tokens_used u = tokens_included u - 1 \<and> tokens (fst (provider_call rq1)) = 5 \<and>
    sqlite_int (tokens_included u + 4) \<longrightarrow>
      fst (api_chat rq1 w) \<noteq> Inl TokenQuotaExceeded \<and>
      adapter_calls (snd (api_chat rq1 w)) = adapter_calls w @ [snd (provider_call rq1)] \<and>
      fetch_user (snd (api_chat rq1 w)) (api_key u) =
        Some (u\<lparr>tokens_used := tokens_included u + 4, updated_at := now_update rq1\<rparr>) \<and>
      api_chat rq2 (snd (api_chat rq1 w)) = (Inl TokenQuotaExceeded, snd (api_chat rq1 w)))"
proof (intro conjI impI)
  assume n: "get_prompt rq \<noteq> []"
  show "(fst (chat cx rq w) = Inl TokenQuotaExceeded) = (req_tokens_included cx \<le> req_tokens_used cx)"
  proof (cases "req_tokens_included cx \<le> req_tokens_used cx")
    case True
    with n show ?thesis by (simp add: chat_quota_exceeded)
  next
    case False
    then show ?thesis by (simp add: chat_not_quota_exceeded)
  qed
  show "snd (chat cx rq w) = w" if "req_tokens_included cx \<le> req_tokens_used cx"
    using n that by (simp add: chat_quota_exceeded)
  show "adapter_calls (snd (chat cx rq w)) = adapter_calls w @ [snd (provider_call rq)]"
    if "req_tokens_used cx < req_tokens_included cx"
    using n that by (rule chat_admitted_call)
  show "snd (chat cx rq w) =
      usage_writes cx rq (fst (provider_call rq))
        (w\<lparr>adapter_calls := adapter_calls w @ [snd (provider_call rq)]\<rparr>)"
    if "req_tokens_used cx < req_tokens_included cx"
      and "sqlite_int (tokens (fst (provider_call rq))) \<and>
        sqlite_int (req_tokens_used cx + tokens (fst (provider_call rq)))"
    using n that by (simp add: chat_admitted_state)
  show "chat cx rq w =
      (Inl (Unhandled OverflowError),
       w\<lparr>adapter_calls := adapter_calls w @ [snd (provider_call rq)]\<rparr>)"
    if "req_tokens_used cx < req_tokens_included cx"
      and "\<not> (sqlite_int (tokens (fst (provider_call rq))) \<and>
        sqlite_int (req_tokens_used cx + tokens (fst (provider_call rq))))"
    using n that by (rule chat_overflow)
next
  assume h: "authenticated rq1 w u \<and> now_check rq1 \<le> tokens_reset_date u \<and>
    (\<forall>l. limiter_admits rq1 l) \<and> get_prompt rq1 \<noteq> [] \<and>
    request_api_key rq2 = request_api_key rq1 \<and> now_check rq2 \<le> tokens_reset_date u \<and>
    (\<forall>l. limiter_admits rq2 l) \<and> get_prompt rq2 \<noteq> [] \<and>
    tokens_used u = tokens_included u - 1 \<and> tokens (fst (provider_call rq1)) = 5 \<and>
    sqlite_int (tokens_included u + 4)"
  then have *: "fst (api_chat rq1 w) \<noteq> Inl TokenQuotaExceeded \<and>
    adapter_calls (snd (api_chat rq1 w)) = adapter_calls w @ [snd (provider_call rq1)] \<and>
    fetch_user (snd (api_chat rq1 w)) (api_key u) =
      Some (u\<lparr>tokens_used := tokens_included u + 4, updated_at := now_update rq1\<rparr>) \<and>
    api_chat rq2 (snd (api_chat rq1 w)) = (Inl TokenQuotaExceeded, snd (api_chat rq1 w))"
    by (intro admitted_then_denied) simp_all
  from * show "fst (api_chat rq1 w) \<noteq> Inl TokenQuotaExceeded" by simp
  from * show "adapter_calls (snd (api_chat rq1 w)) = adapter_calls w @ [snd (provider_call rq1)]"
    by simp
  from * show "fetch_user (snd (api_chat rq1 w)) (api_key u) =
      Some (u\<lparr>tokens_used := tokens_included u + 4, updated_at := now_update rq1\<rparr>)"
    by simp
  from * show "api_chat rq2 (snd (api_chat rq1 w)) = (Inl TokenQuotaExceeded, snd (api_chat rq1 w))"
    by simp
qed

theorem admission_on_pre_call_usage_witness:
  "fst (chat (request_attrs edge_user) four_words edge_world) \<noteq> Inl TokenQuotaExceeded \<and>
   chat (request_attrs (edge_user\<lparr>tokens_used := 10000\<rparr>)) four_words edge_world =
     (Inl TokenQuotaExceeded, edge_world) \<and>
   snd (chat (request_attrs edge_user) four_words edge_world) =
     usage_writes (request_attrs edge_user) four_words (fst (provider_call four_words))
       (edge_world\<lparr>adapter_calls :=
          adapter_calls edge_world @ [snd (provider_call four_words)]\<rparr>) \<and>
   fst (api_chat four_words edge_world) \<noteq> Inl TokenQuotaExceeded \<and>
   fetch_user (snd (api_chat four_words edge_world)) ''demo_key'' =
     Some (edge_user\<lparr>tokens_used := 10004, updated_at := 13\<rparr>) \<and>
   api_chat four_words (snd (api_chat four_words edge_world)) =
     (Inl TokenQuotaExceeded, snd (api_chat four_words edge_world))"
proof -
  have cx: "req_tokens_used (request_attrs edge_user) = 9999"
    "req_tokens_included (request_attrs edge_user) = 10000"
    by (simp_all add: request_attrs_def edge_world_facts)
  note t = admission_on_pre_call_usage
    [where rq = four_words and cx = "request_attrs edge_user" and w = edge_world]
  from t have a: "fst (chat (request_attrs edge_user) four_words edge_world) \<noteq>
      Inl TokenQuotaExceeded"
    by (simp add: four_words_facts cx)
  from t have a': "snd (chat (request_attrs edge_user) four_words edge_world) =
     usage_writes (request_attrs edge_user) four_words (fst (provider_call four_words))
       (edge_world\<lparr>adapter_calls :=
          adapter_calls edge_world @ [snd (provider_call four_words)]\<rparr>)"
    by (simp add: four_words_facts cx sqlite_int_small)
  from admission_on_pre_call_usage
    [where rq = four_words and cx = "request_attrs (edge_user\<lparr>tokens_used := 10000\<rparr>)"
      and w = edge_world]
  have b: "chat (request_attrs (edge_user\<lparr>tokens_used := 10000\<rparr>)) four_words edge_world =
     (Inl TokenQuotaExceeded, edge_world)"
    by (simp add: four_words_facts edge_world_facts request_attrs_def prod_eq_iff)
  from admission_on_pre_call_usage
    [where ?rq1.0 = four_words and ?rq2.0 = four_words and w = edge_world and u = edge_user]
  have c: "fst (api_chat four_words edge_world) \<noteq> Inl TokenQuotaExceeded \<and>
   fetch_user (snd (api_chat four_words edge_world)) ''demo_key'' =
     Some (edge_user\<lparr>tokens_used := 10004, updated_at := 13\<rparr>) \<and>
   api_chat four_words (snd (api_chat four_words edge_world)) =
     (Inl TokenQuotaExceeded, snd (api_chat four_words edge_world))"
    by (simp add: four_words_facts edge_world_facts sqlite_int_small)
  from a a' b c show ?thesis by simp
qed

subsection \<open>Rollover\<close>

lemma limited_not_quota_exceeded:
  "req_tokens_used cx < req_tokens_included cx \<Longrightarrow>
   fst (limiter_limit get_rate_limit chat cx rq w) \<noteq> Inl TokenQuotaExceeded"
  by (simp add: limiter_limit_def chat_not_quota_exceeded)

lemma late_request_facts:
  "authenticated late_request spent_world spent_user"
  "tokens_reset_date spent_user = 1000"
  "now_check late_request = 2000"
  "now_reset late_request = 2001"
  "tokens_included spent_user = 10000"
  "api_key spent_user = ''demo_key''"
  by (simp_all add: authenticated_def late_request_def demo_request_def request_api_key_def
      fetch_user_def spent_world_def demo_world_def spent_user_def demo_user_def)

lemma days30_microseconds: "days30 = 2592000000000"
  by (simp add: days30_def)

lemma thirty_days_later: "date_of (t + 2592000000000) = date_of t + 30"
proof -
  have "t + 2592000000000 = t + 30 * (86400 * 1000000)" by simp
  then show ?thesis
    unfolding date_of_def by (simp only: div_mult_self2) simp
qed

lemma rollover_run:
  "authenticated rq w u \<and> tokens_reset_date u < now_check rq \<longrightarrow>
     authenticate rq w =
       (Inr (request_attrs (u\<lparr>tokens_used := 0\<rparr>)),
        reset_tokens (api_key u) (now_reset rq + days30) w) \<and>
     fetch_user (reset_tokens (api_key u) (now_reset rq + days30) w) (api_key u) =
       Some (u\<lparr>tokens_used := 0, tokens_reset_date := now_reset rq + days30\<rparr>) \<and>
     api_chat rq w =
       limiter_limit get_rate_limit chat (request_attrs (u\<lparr>tokens_used := 0\<rparr>)) rq
         (reset_tokens (api_key u) (now_reset rq + days30) w) \<and>
     (0 < tokens_included u \<longrightarrow> fst (api_chat rq w) \<noteq> Inl TokenQuotaExceeded)"
proof (intro impI)
  assume h: "authenticated rq w u \<and> tokens_reset_date u < now_check rq"
  let ?cx = "request_attrs (u\<lparr>tokens_used := 0\<rparr>)"
  let ?w = "reset_tokens (api_key u) (now_reset rq + days30) w"
  from h have pre: "pre_call_usage rq u = 0" and ro: "rollover rq u w = ?w"
    by (simp_all add: pre_call_usage_def rollover_def)
  from h have au: "authenticated rq w u" by simp
  have a: "authenticate rq w = (Inr ?cx, ?w)"
    by (simp add: authenticate_authenticated [OF au] pre ro)
  from h have "fetch_user (rollover rq u w) (api_key u) =
      Some (u\<lparr>tokens_used := 0, tokens_reset_date := now_reset rq + days30\<rparr>)"
    by (simp add: authenticated_rollover [OF au])
  then have b: "fetch_user ?w (api_key u) =
      Some (u\<lparr>tokens_used := 0, tokens_reset_date := now_reset rq + days30\<rparr>)"
    by (simp add: ro)
  have c: "api_chat rq w = limiter_limit get_rate_limit chat ?cx rq ?w"
    by (simp add: api_chat_authenticated [OF au] pre ro)
  have d: "fst (api_chat rq w) \<noteq> Inl TokenQuotaExceeded" if "0 < tokens_included u"
    using that by (simp add: c limited_not_quota_exceeded request_attrs_def)
  from a b c d show "authenticate rq w = (Inr ?cx, ?w) \<and>
     fetch_user ?w (api_key u) =
       Some (u\<lparr>tokens_used := 0, tokens_reset_date := now_reset rq + days30\<rparr>) \<and>
     api_chat rq w = limiter_limit get_rate_limit chat ?cx rq ?w \<and>
     (0 < tokens_included u \<longrightarrow> fst (api_chat rq w) \<noteq> Inl TokenQuotaExceeded)"
    by simp
qed

text \<open>
  C3. A request of an active account that arrives after the end of the period: the
  decorator hands the handler a usage of 0 and a store in which the row of the account has
  \<open>tokens_used = 0\<close> and a period end 2592000000000 microseconds, that is 30 days, after
  the reading of the clock taken for the reset; the quota check runs on that. So an account
  with a positive quota is not rejected for quota on such a request, whatever usage the old
  period had left.
\<close>

theorem rollover_before_admission:
  "(authenticated rq w u \<and> tokens_reset_date u < now_check rq \<longrightarrow>
     authenticate rq w =
       (Inr (request_attrs (u\<lparr>tokens_used := 0\<rparr>)),
        reset_tokens (api_key u) (now_reset rq + 2592000000000) w) \<and>
     fetch_user (reset_tokens (api_key u) (now_reset rq + 2592000000000) w) (api_key u) =
       Some (u\<lparr>tokens_used := 0, tokens_reset_date := now_reset rq + 2592000000000\<rparr>) \<and>
     api_chat rq w =
       limiter_limit get_rate_limit chat (request_attrs (u\<lparr>tokens_used := 0\<rparr>)) rq
         (reset_tokens (api_key u) (now_reset rq + 2592000000000) w) \<and>
     (0 < tokens_included u \<longrightarrow> fst (api_chat rq w) \<noteq> Inl TokenQuotaExceeded)) \<and>
   date_of (now_reset rq + 2592000000000) = date_of (now_reset rq) + 30"
proof (intro conjI)
  show "date_of (now_reset rq + 2592000000000) = date_of (now_reset rq) + 30"
    by (rule thirty_days_later)
  show "authenticated rq w u \<and> tokens_reset_date u < now_check rq \<longrightarrow>
     authenticate rq w =
       (Inr (request_attrs (u\<lparr>tokens_used := 0\<rparr>)),
        reset_tokens (api_key u) (now_reset rq + 2592000000000) w) \<and>
     fetch_user (reset_tokens (api_key u) (now_reset rq + 2592000000000) w) (api_key u) =
       Some (u\<lparr>tokens_used := 0, tokens_reset_date := now_reset rq + 2592000000000\<rparr>) \<and>
     api_chat rq w =
       limiter_limit get_rate_limit chat (request_attrs (u\<lparr>tokens_used := 0\<rparr>)) rq
         (reset_tokens (api_key u) (now_reset rq + 2592000000000) w) \<and>
     (0 < tokens_included u \<longrightarrow> fst (api_chat rq w) \<noteq> Inl TokenQuotaExceeded)"
    using rollover_run [of rq w u] unfolding days30_microseconds .
qed

theorem rollover_before_admission_witness:
  "authenticate late_request spent_world =
     (Inr (request_attrs (spent_user\<lparr>tokens_used := 0\<rparr>)),
      reset_tokens ''demo_key'' 2592000002001 spent_world) \<and>
   fetch_user (reset_tokens ''demo_key'' 2592000002001 spent_world) ''demo_key'' =
     Some (spent_user\<lparr>tokens_used := 0, tokens_reset_date := 2592000002001\<rparr>) \<and>
   map tokens_reset_date (users (snd (authenticate late_request spent_world))) =
     [2592000002001] \<and>
   map tokens_used (users (snd (authenticate late_request spent_world))) = [0] \<and>
   fst (api_chat late_request spent_world) \<noteq> Inl TokenQuotaExceeded"
proof -
  have h: "authenticated late_request spent_world spent_user \<and>
      tokens_reset_date spent_user < now_check late_request"
    by (simp add: late_request_facts)
  have p: "0 < tokens_included spent_user"
    by (simp add: late_request_facts)
  note r = rollover_before_admission
    [of late_request spent_world spent_user, THEN conjunct1, THEN mp, OF h]
  from r [THEN conjunct1] have a: "authenticate late_request spent_world =
     (Inr (request_attrs (spent_user\<lparr>tokens_used := 0\<rparr>)),
      reset_tokens ''demo_key'' 2592000002001 spent_world)"
    by (simp add: late_request_facts)
  from r [THEN conjunct2, THEN conjunct1]
  have b: "fetch_user (reset_tokens ''demo_key'' 2592000002001 spent_world) ''demo_key'' =
     Some (spent_user\<lparr>tokens_used := 0, tokens_reset_date := 2592000002001\<rparr>)"
    by (simp add: late_request_facts)
  from r [THEN conjunct2, THEN conjunct2, THEN conjunct2, THEN mp, OF p]
  have c: "fst (api_chat late_request spent_world) \<noteq> Inl TokenQuotaExceeded" .
  have d: "map tokens_reset_date (users (snd (authenticate late_request spent_world))) =
     [2592000002001] \<and>
   map tokens_used (users (snd (authenticate late_request spent_world))) = [0]"
    unfolding a
    by (simp add: reset_tokens_def spent_world_def demo_world_def spent_user_def demo_user_def)
  from a b c d show ?thesis by simp
qed

subsection \<open>The reply\<close>

lemma chat_Inr:
  "fst (chat cx rq w) = Inr reply \<Longrightarrow>
   get_prompt rq \<noteq> [] \<and> req_tokens_used cx < req_tokens_included cx \<and>
   req_tokens_included cx \<noteq> 0 \<and> sqlite_int (tokens (fst (provider_call rq))) \<and>
   sqlite_int (req_tokens_used cx + tokens (fst (provider_call rq)))"
  by (auto simp add: chat_def Let_def split_beta record_usage_def py_truediv_def
      split: if_splits)

text \<open>
  The whole route for a request that is authenticated, passes the limiter, has a prompt
  and a usage below the quota, on an account whose stored usage is not negative, when the
  tokens of the call and the new usage fit the integers of the store.
\<close>

lemma api_chat_reply:
  assumes au: "authenticated rq w u" and l: "\<forall>l. limiter_admits rq l"
    and n: "get_prompt rq \<noteq> []" and nn: "0 \<le> tokens_used u"
    and lt: "pre_call_usage rq u < tokens_included u"
    and st: "sqlite_int (tokens (fst (provider_call rq)))"
    and sn: "sqlite_int (pre_call_usage rq u + tokens (fst (provider_call rq)))"
  shows "fst (api_chat rq w) =
      Inr \<lparr>response_out = response (fst (provider_call rq)),
           model_used = model (fst (provider_call rq)),
           provider_out = provider (fst (provider_call rq)),
           tokens_used_out = tokens (fst (provider_call rq)),
           cost_out = cost (fst (provider_call rq)),
           response_time_out = response_time (fst (provider_call rq)),
           total_tokens_used = pre_call_usage rq u + tokens (fst (provider_call rq)),
           remaining_quota =
             max 0 (tokens_included u - (pre_call_usage rq u + tokens (fst (provider_call rq)))),
           quota_percentage =
             min 100
               (real_of_int (pre_call_usage rq u + tokens (fst (provider_call rq))) /
                  real_of_int (tokens_included u) * 100)\<rparr>"
    and "map_option tokens_used (fetch_user (snd (api_chat rq w)) (api_key u)) =
      Some (pre_call_usage rq u + tokens (fst (provider_call rq)))"
proof -
  let ?cx = "request_attrs (u\<lparr>tokens_used := pre_call_usage rq u\<rparr>)"
  let ?w = "rollover rq u w"
  have cx: "req_tokens_used ?cx = pre_call_usage rq u" "req_tokens_included ?cx = tokens_included u"
    "req_user_id ?cx = uid u"
    by (simp_all add: request_attrs_def)
  from nn have "0 \<le> pre_call_usage rq u" by (simp add: pre_call_usage_def)
  with lt have nz: "req_tokens_included ?cx \<noteq> 0" by (simp add: cx)
  from lt have lt': "req_tokens_used ?cx < req_tokens_included ?cx" by (simp add: cx)
  from st sn have s2: "sqlite_int (req_tokens_used ?cx + tokens (fst (provider_call rq)))"
    by (simp add: cx)
  from l have run: "api_chat rq w = chat ?cx rq ?w"
    by (simp add: api_chat_authenticated [OF au] limiter_limit_def)
  show "fst (api_chat rq w) =
      Inr \<lparr>response_out = response (fst (provider_call rq)),
           model_used = model (fst (provider_call rq)),
           provider_out = provider (fst (provider_call rq)),
           tokens_used_out = tokens (fst (provider_call rq)),
           cost_out = cost (fst (provider_call rq)),
           response_time_out = response_time (fst (provider_call rq)),
           total_tokens_used = pre_call_usage rq u + tokens (fst (provider_call rq)),
           remaining_quota =
             max 0 (tokens_included u - (pre_call_usage rq u + tokens (fst (provider_call rq)))),
           quota_percentage =
             min 100
               (real_of_int (pre_call_usage rq u + tokens (fst (provider_call rq))) /
                  real_of_int (tokens_included u) * 100)\<rparr>"
    unfolding run by (simp add: chat_admitted_reply [OF n lt' nz st s2] cx)
  have "fetch_user ?w (api_key u) =
      Some (if now_check rq > tokens_reset_date u
            then u\<lparr>tokens_used := 0, tokens_reset_date := now_reset rq + days30\<rparr> else u)"
    by (rule authenticated_rollover [OF au])
  then show "map_option tokens_used (fetch_user (snd (api_chat rq w)) (api_key u)) =
      Some (pre_call_usage rq u + tokens (fst (provider_call rq)))"
    unfolding run
    by (simp add: chat_admitted_state [OF n lt' st s2] fetch_user_usage_writes cx)
qed

text \<open>
  C7. The reply of an admitted and completed request reports, beside the text, model,
  provider, tokens, cost and response time of this call, \<open>total_tokens_used\<close> as the usage
  the handler was handed plus the tokens of this call, which is the value the debit stores
  in the row of the account; \<open>remaining_quota\<close> as the quota minus that total, or 0 when
  that is negative; and \<open>quota_percentage\<close> as the total over the quota times 100, or 100
  when that is more. A request with a prompt and a usage that is not negative and below
  the quota gets such a reply when the tokens of the call and the new usage fit the 64-bit
  integers of the store. Through the whole route: for an authenticated request past the
  limiter, of an account whose stored usage is not negative, the total is the usage of the
  period to date (the stored usage, or 0 after a rollover) plus the tokens of this call,
  the quota is the \<open>tokens_included\<close> of the row, and the total is what the row holds
  afterwards.
\<close>

theorem reply_reports_quota:
  "(fst (chat cx rq w) = Inr reply \<longrightarrow>
      response_out reply = response (fst (provider_call rq)) \<and>
      model_used reply = model (fst (provider_call rq)) \<and>
      provider_out reply = provider (fst (provider_call rq)) \<and>
      tokens_used_out reply = tokens (fst (provider_call rq)) \<and>
      cost_out reply = cost (fst (provider_call rq)) \<and>
      response_time_out reply = response_time (fst (provider_call rq)) \<and>
      total_tokens_used reply = req_tokens_used cx + tokens_used_out reply \<and>
      remaining_quota reply = max 0 (req_tokens_included cx - total_tokens_used reply) \<and>
      quota_percentage reply =
        min 100
          (real_of_int (total_tokens_used reply) / real_of_int (req_tokens_included cx) * 100) \<and>
      (fetch_user w k = Some v \<and> uid v = req_user_id cx \<longrightarrow>
         map_option tokens_used (fetch_user (snd (chat cx rq w)) k) =
           Some (total_tokens_used reply))) \<and>
   (get_prompt rq \<noteq> [] \<and> 0 \<le> req_tokens_used cx \<and>
    req_tokens_used cx < req_tokens_included cx \<and>
    sqlite_int (tokens (fst (provider_call rq))) \<and>
    sqlite_int (req_tokens_used cx + tokens (fst (provider_call rq))) \<longrightarrow>
      (\<exists>r. fst (chat cx rq w) = Inr r)) \<and>
   (authenticated rq w u \<and> (\<forall>l. limiter_admits rq l) \<and> get_prompt rq \<noteq> [] \<and>
    0 \<le> tokens_used u \<and> pre_call_usage rq u < tokens_included u \<and>
    sqlite_int (tokens (fst (provider_call rq))) \<and>
    sqlite_int (pre_call_usage rq u + tokens (fst (provider_call rq))) \<longrightarrow>
      fst (api_chat rq w) =
        Inr \<lparr>response_out = response (fst (provider_call rq)),
             model_used = model (fst (provider_call rq)),
             provider_out = provider (fst (provider_call rq)),
             tokens_used_out = tokens (fst (provider_call rq)),
             cost_out = cost (fst (provider_call rq)),
             response_time_out = response_time (fst (provider_call rq)),
             total_tokens_used = pre_call_usage rq u + tokens (fst (provider_call rq)),
             remaining_quota =
               max 0
                 (tokens_included u - (pre_call_usage rq u + tokens (fst (provider_call rq)))),
             quota_percentage =
               min 100
                 (real_of_int (pre_call_usage rq u + tokens (fst (provider_call rq))) /
                    real_of_int (tokens_included u) * 100)\<rparr> \<and>
      map_option tokens_used (fetch_user (snd (api_chat rq w)) (api_key u)) =
        Some (pre_call_usage rq u + tokens (fst (provider_call rq))))"
proof (intro conjI impI)
  assume h: "get_prompt rq \<noteq> [] \<and> 0 \<le> req_tokens_used cx \<and>
    req_tokens_used cx < req_tokens_included cx \<and>
    sqlite_int (tokens (fst (provider_call rq))) \<and>
    sqlite_int (req_tokens_used cx + tokens (fst (provider_call rq)))"
  then have "req_tokens_included cx \<noteq> 0" by simp
  with h show "\<exists>r. fst (chat cx rq w) = Inr r"
    by (simp add: chat_admitted_reply)
next
  assume r: "fst (chat cx rq w) = Inr reply"
  from chat_Inr [OF r] have n: "get_prompt rq \<noteq> []"
    and lt: "req_tokens_used cx < req_tokens_included cx"
    and nz: "req_tokens_included cx \<noteq> 0"
    and st: "sqlite_int (tokens (fst (provider_call rq)))"
    and sn: "sqlite_int (req_tokens_used cx + tokens (fst (provider_call rq)))"
    by simp_all
  from r chat_admitted_reply [OF n lt nz st sn, of w] have reply:
    "reply =
     \<lparr>response_out = response (fst (provider_call rq)),
      model_used = model (fst (provider_call rq)),
      provider_out = provider (fst (provider_call rq)),
      tokens_used_out = tokens (fst (provider_call rq)),
      cost_out = cost (fst (provider_call rq)),
      response_time_out = response_time (fst (provider_call rq)),
      total_tokens_used = req_tokens_used cx + tokens (fst (provider_call rq)),
      remaining_quota =
        max 0 (req_tokens_included cx - (req_tokens_used cx + tokens (fst (provider_call rq)))),
      quota_percentage =
        min 100
          (real_of_int (req_tokens_used cx + tokens (fst (provider_call rq))) /
             real_of_int (req_tokens_included cx) * 100)\<rparr>"
    by simp
  show "response_out reply = response (fst (provider_call rq))" by (simp add: reply)
  show "model_used reply = model (fst (provider_call rq))" by (simp add: reply)
  show "provider_out reply = provider (fst (provider_call rq))" by (simp add: reply)
  show "tokens_used_out reply = tokens (fst (provider_call rq))" by (simp add: reply)
  show "cost_out reply = cost (fst (provider_call rq))" by (simp add: reply)
  show "response_time_out reply = response_time (fst (provider_call rq))" by (simp add: reply)
  show "total_tokens_used reply = req_tokens_used cx + tokens_used_out reply"
    by (simp add: reply)
  show "remaining_quota reply = max 0 (req_tokens_included cx - total_tokens_used reply)"
    by (simp add: reply)
  show "quota_percentage reply =
      min 100 (real_of_int (total_tokens_used reply) / real_of_int (req_tokens_included cx) * 100)"
    by (simp add: reply)
  show "map_option tokens_used (fetch_user (snd (chat cx rq w)) k) =
      Some (total_tokens_used reply)"
    if "fetch_user w k = Some v \<and> uid v = req_user_id cx"
    using that by (simp add: chat_admitted_state [OF n lt st sn] fetch_user_usage_writes reply)
next
  assume h: "authenticated rq w u \<and> (\<forall>l. limiter_admits rq l) \<and> get_prompt rq \<noteq> [] \<and>
    0 \<le> tokens_used u \<and> pre_call_usage rq u < tokens_included u \<and>
    sqlite_int (tokens (fst (provider_call rq))) \<and>
    sqlite_int (pre_call_usage rq u + tokens (fst (provider_call rq)))"
  then show "fst (api_chat rq w) =
        Inr \<lparr>response_out = response (fst (provider_call rq)),
             model_used = model (fst (provider_call rq)),
             provider_out = provider (fst (provider_call rq)),
             tokens_used_out = tokens (fst (provider_call rq)),
             cost_out = cost (fst (provider_call rq)),
             response_time_out = response_time (fst (provider_call rq)),
             total_tokens_used = pre_call_usage rq u + tokens (fst (provider_call rq)),
             remaining_quota =
               max 0
                 (tokens_included u - (pre_call_usage rq u + tokens (fst (provider_call rq)))),
             quota_percentage =
               min 100
                 (real_of_int (pre_call_usage rq u + tokens (fst (provider_call rq))) /
                    real_of_int (tokens_included u) * 100)\<rparr>"
    by (intro api_chat_reply(1)) simp_all
  from h show "map_option tokens_used (fetch_user (snd (api_chat rq w)) (api_key u)) =
        Some (pre_call_usage rq u + tokens (fst (provider_call rq)))"
    by (intro api_chat_reply(2)) simp_all
qed

theorem reply_reports_quota_witness:
  "fst (chat (request_attrs edge_user) four_words edge_world) =
     Inr \<lparr>response_out = mock_response ''gpt-3.5-turbo'' ''one two three four'',
          model_used = ''gpt-3.5-turbo'', provider_out = ''openai'', tokens_used_out = 5,
          cost_out = 1 / 100000, response_time_out = 1 / 2, total_tokens_used = 10004,
          remaining_quota = 0, quota_percentage = 100\<rparr> \<and>
   map_option tokens_used
     (fetch_user (snd (chat (request_attrs edge_user) four_words edge_world)) ''demo_key'') =
     Some 10004 \<and>
   fst (api_chat four_words demo_world) =
     Inr \<lparr>response_out = mock_response ''gpt-3.5-turbo'' ''one two three four'',
          model_used = ''gpt-3.5-turbo'', provider_out = ''openai'', tokens_used_out = 5,
          cost_out = 1 / 100000, response_time_out = 1 / 2, total_tokens_used = 5,
          remaining_quota = 9995, quota_percentage = 1 / 20\<rparr> \<and>
   map_option tokens_used (fetch_user (snd (api_chat four_words demo_world)) ''demo_key'') =
     Some 5"
proof -
  let ?reply = "\<lparr>response_out = mock_response ''gpt-3.5-turbo'' ''one two three four'',
          model_used = ''gpt-3.5-turbo'', provider_out = ''openai'', tokens_used_out = 5,
          cost_out = 1 / 100000, response_time_out = 1 / 2, total_tokens_used = 10004,
          remaining_quota = 0, quota_percentage = 100\<rparr>"
  note pc = four_words_call
  have cx: "req_tokens_used (request_attrs edge_user) = 9999"
    "req_tokens_included (request_attrs edge_user) = 10000"
    "req_user_id (request_attrs edge_user) = uid edge_user"
    by (simp_all add: request_attrs_def edge_world_facts)
  have fu: "fetch_user edge_world ''demo_key'' = Some edge_user"
    by (simp add: fetch_user_def edge_world_def demo_world_def edge_user_def demo_user_def)
  note t = reply_reports_quota
    [where cx = "request_attrs edge_user" and rq = four_words and w = edge_world
      and k = "''demo_key''" and v = edge_user]
  from t [where reply = ?reply, THEN conjunct2, THEN conjunct1] obtain r
    where r: "fst (chat (request_attrs edge_user) four_words edge_world) = Inr r"
    by (auto simp add: four_words_facts cx sqlite_int_small)
  from t [where reply = r, THEN conjunct1] r fu
  have a: "r = ?reply \<and>
    map_option tokens_used
      (fetch_user (snd (chat (request_attrs edge_user) four_words edge_world)) ''demo_key'') =
      Some 10004"
    by (cases r) (simp add: pc cx)
  have pre: "pre_call_usage four_words demo_user = 0"
    by (simp add: pre_call_usage_def four_words_facts demo_four_words_facts)
  have h: "authenticated four_words demo_world demo_user \<and>
    (\<forall>l. limiter_admits four_words l) \<and> get_prompt four_words \<noteq> [] \<and>
    0 \<le> tokens_used demo_user \<and> pre_call_usage four_words demo_user < tokens_included demo_user \<and>
    sqlite_int (tokens (fst (provider_call four_words))) \<and>
    sqlite_int (pre_call_usage four_words demo_user + tokens (fst (provider_call four_words)))"
    by (simp add: pre four_words_facts demo_four_words_facts sqlite_int_small)
  note q = reply_reports_quota
    [where rq = four_words and w = demo_world and u = demo_user,
      THEN conjunct2, THEN conjunct2, THEN mp, OF h]
  from q [THEN conjunct1] have b: "fst (api_chat four_words demo_world) =
     Inr \<lparr>response_out = mock_response ''gpt-3.5-turbo'' ''one two three four'',
          model_used = ''gpt-3.5-turbo'', provider_out = ''openai'', tokens_used_out = 5,
          cost_out = 1 / 100000, response_time_out = 1 / 2, total_tokens_used = 5,
          remaining_quota = 9995, quota_percentage = 1 / 20\<rparr>"
    by (simp add: pre pc demo_four_words_facts)
  from q [THEN conjunct2]
  have c: "map_option tokens_used (fetch_user (snd (api_chat four_words demo_world)) ''demo_key'') =
     Some 5"
    by (simp add: pre pc demo_four_words_facts)
  from r a b c show ?thesis by simp
qed

subsection \<open>The division in the reply\<close>

lemma chat_no_zero_division:
  "0 \<le> req_tokens_used cx \<Longrightarrow> fst (chat cx rq w) \<noteq> Inl (Unhandled ZeroDivisionError)"
  by (auto simp add: chat_def Let_def split_beta record_usage_def py_truediv_def)

lemma authenticated_member: "authenticated rq w u \<Longrightarrow> u \<in> set (users w)"
  by (auto simp add: authenticated_def fetch_user_def find_Some_iff in_set_conv_nth
      split: option.splits)

lemma api_chat_no_zero_division:
  assumes "\<forall>u \<in> set (users w). 0 \<le> tokens_used u"
  shows "fst (api_chat rq w) \<noteq> Inl (Unhandled ZeroDivisionError)"
proof (cases "\<exists>u. authenticated rq w u")
  case True
  then obtain u where au: "authenticated rq w u" ..
  with assms have "0 \<le> tokens_used u"
    by (simp add: authenticated_member)
  then have "0 \<le> req_tokens_used (request_attrs (u\<lparr>tokens_used := pre_call_usage rq u\<rparr>))"
    by (simp add: request_attrs_def pre_call_usage_def)
  then show ?thesis
    by (simp add: api_chat_authenticated [OF au] limiter_limit_def chat_no_zero_division)
next
  case False
  from api_chat_rejected [OF this] show ?thesis by auto
qed

text \<open>
  C10. When the usage handed to the handler is not negative, the handler never divides by
  zero: a quota of 0 is then at most the usage, so the request is rejected for quota before
  the division is reached. Through the whole route: on a store in which no account has a
  negative \<open>tokens_used\<close>, no request ends in a division by zero.
\<close>

theorem quota_percentage_division_defined:
  "(0 \<le> req_tokens_used cx \<longrightarrow> fst (chat cx rq w) \<noteq> Inl (Unhandled ZeroDivisionError)) \<and>
   (0 \<le> req_tokens_used cx \<and> req_tokens_included cx = 0 \<and> get_prompt rq \<noteq> [] \<longrightarrow>
      chat cx rq w = (Inl TokenQuotaExceeded, w)) \<and>
   (0 \<le> req_tokens_used cx \<and> fst (chat cx rq w) = Inr reply \<longrightarrow>
      0 < req_tokens_included cx \<and>
      py_truediv (total_tokens_used reply) (req_tokens_included cx) =
        Inr (real_of_int (total_tokens_used reply) / real_of_int (req_tokens_included cx))) \<and>
   ((\<forall>u \<in> set (users w). 0 \<le> tokens_used u) \<longrightarrow>
      fst (api_chat rq w) \<noteq> Inl (Unhandled ZeroDivisionError))"
proof (intro conjI impI)
  show "fst (chat cx rq w) \<noteq> Inl (Unhandled ZeroDivisionError)" if "0 \<le> req_tokens_used cx"
    using that by (rule chat_no_zero_division)
  show "chat cx rq w = (Inl TokenQuotaExceeded, w)"
    if "0 \<le> req_tokens_used cx \<and> req_tokens_included cx = 0 \<and> get_prompt rq \<noteq> []"
    using that by (simp add: chat_quota_exceeded)
  show "fst (api_chat rq w) \<noteq> Inl (Unhandled ZeroDivisionError)"
    if "\<forall>u \<in> set (users w). 0 \<le> tokens_used u"
    using that by (rule api_chat_no_zero_division)
next
  assume h: "0 \<le> req_tokens_used cx \<and> fst (chat cx rq w) = Inr reply"
  with chat_Inr [of cx rq w reply] show pos: "0 < req_tokens_included cx"
    by simp
  then show "py_truediv (total_tokens_used reply) (req_tokens_included cx) =
      Inr (real_of_int (total_tokens_used reply) / real_of_int (req_tokens_included cx))"
    by (simp add: py_truediv_def)
qed

theorem quota_percentage_division_defined_witness:
  "chat (request_attrs zero_quota_user) demo_request zero_quota_world =
     (Inl TokenQuotaExceeded, zero_quota_world) \<and>
   fst (api_chat demo_request zero_quota_world) \<noteq> Inl (Unhandled ZeroDivisionError) \<and>
   py_truediv 10004 (req_tokens_included (request_attrs edge_user)) = Inr (10004 / 10000)"
proof -
  have cx: "req_tokens_used (request_attrs zero_quota_user) = 0"
    "req_tokens_included (request_attrs zero_quota_user) = 0"
    by (simp_all add: request_attrs_def zero_quota_user_def demo_user_def)
  have n: "get_prompt demo_request \<noteq> []"
    by (simp add: get_prompt_def demo_request_def)
  have us: "\<forall>u \<in> set (users zero_quota_world). 0 \<le> tokens_used u"
    by (simp add: zero_quota_world_def demo_world_def zero_quota_user_def demo_user_def)
  note t = quota_percentage_division_defined
    [where cx = "request_attrs zero_quota_user" and rq = demo_request and w = zero_quota_world]
  from t cx n have a: "chat (request_attrs zero_quota_user) demo_request zero_quota_world =
     (Inl TokenQuotaExceeded, zero_quota_world)"
    by simp
  from t us have b: "fst (api_chat demo_request zero_quota_world) \<noteq>
      Inl (Unhandled ZeroDivisionError)"
    by simp
  have e: "req_tokens_used (request_attrs edge_user) = 9999"
    "req_tokens_included (request_attrs edge_user) = 10000"
    by (simp_all add: request_attrs_def edge_world_facts)
  note r = edge_chat_reply
  from quota_percentage_division_defined
    [where cx = "request_attrs edge_user" and rq = four_words and w = edge_world
      and reply = "\<lparr>response_out = mock_response ''gpt-3.5-turbo'' ''one two three four'',
          model_used = ''gpt-3.5-turbo'', provider_out = ''openai'', tokens_used_out = 5,
          cost_out = 1 / 100000, response_time_out = 1 / 2, total_tokens_used = 10004,
          remaining_quota = 0, quota_percentage = 100\<rparr>"] e r
  have c: "py_truediv 10004 (req_tokens_included (request_attrs edge_user)) =
      Inr (10004 / 10000)"
    by simp
  from a b c show ?thesis by simp
qed

subsection \<open>Rejected requests\<close>

lemma chat_Inl:
  "fst (chat cx rq w) = Inl e \<Longrightarrow>
   (e = PromptRequired \<and> snd (chat cx rq w) = w) \<or>
   (e = TokenQuotaExceeded \<and> snd (chat cx rq w) = w) \<or>
   e = Unhandled ZeroDivisionError \<or> e = Unhandled OverflowError"
  by (auto simp add: chat_def Let_def split_beta record_usage_def py_truediv_def
      split: if_splits)

lemma limited_Inl:
  "fst (limiter_limit get_rate_limit chat cx rq w) = Inl e \<Longrightarrow>
   (e = RateLimitExceeded \<and> snd (limiter_limit get_rate_limit chat cx rq w) = w) \<or>
   (e = PromptRequired \<and> snd (limiter_limit get_rate_limit chat cx rq w) = w) \<or>
   (e = TokenQuotaExceeded \<and> snd (limiter_limit get_rate_limit chat cx rq w) = w) \<or>
   e = Unhandled ZeroDivisionError \<or> e = Unhandled OverflowError"
  using chat_Inl [of cx rq w e] by (auto simp add: limiter_limit_def split: if_splits)

lemma rollover_tables:
  "usage_logs (rollover rq u w) = usage_logs w"
  "analytics_daily (rollover rq u w) = analytics_daily w"
  "adapter_calls (rollover rq u w) = adapter_calls w"
  by (simp_all add: rollover_def reset_tokens_def)

lemma auth_rejection_unchanged:
  assumes "fst (api_chat rq w) = Inl ApiKeyRequired \<or>
    fst (api_chat rq w) = Inl InvalidOrInactiveApiKey"
  shows "snd (api_chat rq w) = w"
proof (cases "\<exists>u. authenticated rq w u")
  case True
  then obtain u where au: "authenticated rq w u" ..
  let ?cx = "request_attrs (u\<lparr>tokens_used := pre_call_usage rq u\<rparr>)"
  from assms obtain e where e: "fst (limiter_limit get_rate_limit chat ?cx rq (rollover rq u w)) = Inl e"
    and which: "e = ApiKeyRequired \<or> e = InvalidOrInactiveApiKey"
    by (auto simp add: api_chat_authenticated [OF au])
  from limited_Inl [OF e] which show ?thesis by auto
next
  case False
  from api_chat_rejected [OF this] show ?thesis by auto
qed

lemma quota_rejection_state:
  assumes q: "fst (api_chat rq w) = Inl TokenQuotaExceeded"
  shows "\<exists>u. authenticated rq w u \<and> snd (api_chat rq w) = rollover rq u w"
proof (cases "\<exists>u. authenticated rq w u")
  case True
  then obtain u where au: "authenticated rq w u" ..
  let ?cx = "request_attrs (u\<lparr>tokens_used := pre_call_usage rq u\<rparr>)"
  from q have "fst (limiter_limit get_rate_limit chat ?cx rq (rollover rq u w)) =
      Inl TokenQuotaExceeded"
    by (simp add: api_chat_authenticated [OF au])
  from limited_Inl [OF this]
  have "snd (limiter_limit get_rate_limit chat ?cx rq (rollover rq u w)) = rollover rq u w"
    by simp
  then have "snd (api_chat rq w) = rollover rq u w"
    by (simp add: api_chat_authenticated [OF au])
  with au show ?thesis by blast
next
  case False
  from api_chat_rejected [OF this] q show ?thesis by auto
qed

lemma lapsed_facts:
  "authenticated late_request lapsed_world lapsed_user"
  "tokens_reset_date lapsed_user = 1000"
  "tokens_included lapsed_user = 0"
  "tokens_used lapsed_user = 5"
  "api_key lapsed_user = ''demo_key''"
  "get_prompt late_request \<noteq> []"
  "limiter_admits late_request l"
  by (simp_all add: authenticated_def late_request_def demo_request_def request_api_key_def
      fetch_user_def lapsed_world_def demo_world_def lapsed_user_def demo_user_def
      get_prompt_def)

lemma lapsed_run:
  "api_chat late_request lapsed_world =
     (Inl TokenQuotaExceeded, reset_tokens ''demo_key'' (2001 + days30) lapsed_world)"
proof -
  have pre: "pre_call_usage late_request lapsed_user = 0"
    and ro: "rollover late_request lapsed_user lapsed_world =
      reset_tokens ''demo_key'' (2001 + days30) lapsed_world"
    by (simp_all add: pre_call_usage_def rollover_def lapsed_facts late_request_facts)
  show ?thesis
    by (simp add: api_chat_authenticated [OF lapsed_facts(1)] pre ro limiter_limit_def
        lapsed_facts chat_quota_exceeded request_attrs_def)
qed

text \<open>
  C8 as stated does not hold of a quota rejection: a request of the account with quota 0
  that arrives after the end of the period is rejected for quota, and the row of the account
  has changed from 5 tokens used to 0 and has a new period end.
\<close>

theorem quota_rejection_changes_account_counterexample:
  "fst (api_chat late_request lapsed_world) = Inl TokenQuotaExceeded \<and>
   map tokens_used (users lapsed_world) = [5] \<and>
   map tokens_used (users (snd (api_chat late_request lapsed_world))) = [0] \<and>
   map tokens_reset_date (users lapsed_world) = [1000] \<and>
   map tokens_reset_date (users (snd (api_chat late_request lapsed_world))) = [2592000002001]"
  unfolding lapsed_run
  by (simp add: reset_tokens_def lapsed_world_def demo_world_def lapsed_user_def
      demo_user_def days30_def)

text \<open>
  C8, amended. A request rejected for its credential (missing, unknown or inactive)
  leaves the whole state as it was. A request rejected for quota appends no usage row,
  touches no daily row and calls no adapter, and the state it leaves is the one the
  decorator handed to the handler: the state as it was when the request arrived inside the
  period, and that state with the rollover of the account written (\<open>tokens_used = 0\<close>, a new
  period end) when it arrived after the end of the period. Nothing is debited in either
  case.
\<close>

theorem rejection_records_nothing:
  "(fst (api_chat rq w) = Inl ApiKeyRequired \<or>
    fst (api_chat rq w) = Inl InvalidOrInactiveApiKey \<longrightarrow> snd (api_chat rq w) = w) \<and>
   (fst (api_chat rq w) = Inl TokenQuotaExceeded \<longrightarrow>
      usage_logs (snd (api_chat rq w)) = usage_logs w \<and>
      analytics_daily (snd (api_chat rq w)) = analytics_daily w \<and>
      adapter_calls (snd (api_chat rq w)) = adapter_calls w \<and>
      (\<exists>u. authenticated rq w u \<and>
         snd (api_chat rq w) =
           (if now_check rq > tokens_reset_date u
            then reset_tokens (api_key u) (now_reset rq + days30) w
            else w)))"
proof (intro conjI impI)
  show "snd (api_chat rq w) = w"
    if "fst (api_chat rq w) = Inl ApiKeyRequired \<or>
      fst (api_chat rq w) = Inl InvalidOrInactiveApiKey"
    using that by (rule auth_rejection_unchanged)
next
  assume q: "fst (api_chat rq w) = Inl TokenQuotaExceeded"
  from quota_rejection_state [OF q] obtain u
    where au: "authenticated rq w u" and st: "snd (api_chat rq w) = rollover rq u w"
    by blast
  show "usage_logs (snd (api_chat rq w)) = usage_logs w"
    by (simp add: st rollover_tables)
  show "analytics_daily (snd (api_chat rq w)) = analytics_daily w"
    by (simp add: st rollover_tables)
  show "adapter_calls (snd (api_chat rq w)) = adapter_calls w"
    by (simp add: st rollover_tables)
  from au st show "\<exists>u. authenticated rq w u \<and>
         snd (api_chat rq w) =
           (if now_check rq > tokens_reset_date u
            then reset_tokens (api_key u) (now_reset rq + days30) w
            else w)"
    by (auto simp add: rollover_def)
qed

theorem rejection_records_nothing_witness:
  "snd (api_chat (demo_request\<lparr>header_api_key := Some ''nobody''\<rparr>) demo_world) = demo_world \<and>
   usage_logs (snd (api_chat late_request lapsed_world)) = [] \<and>
   adapter_calls (snd (api_chat late_request lapsed_world)) = [] \<and>
   snd (api_chat demo_request spent_world) = spent_world"
proof -
  let ?rq = "demo_request\<lparr>header_api_key := Some ''nobody''\<rparr>"
  have "api_chat ?rq demo_world = (Inl InvalidOrInactiveApiKey, demo_world)"
    by (simp add: api_chat_def require_api_key_def authenticate_def request_api_key_def
        demo_request_def fetch_user_def demo_world_def demo_user_def)
  with rejection_records_nothing [of ?rq demo_world]
  have a: "snd (api_chat ?rq demo_world) = demo_world"
    by simp
  have q: "fst (api_chat late_request lapsed_world) = Inl TokenQuotaExceeded"
    by (simp add: lapsed_run)
  have e: "usage_logs lapsed_world = []" "adapter_calls lapsed_world = []"
    by (simp_all add: lapsed_world_def demo_world_def)
  from rejection_records_nothing [of late_request lapsed_world, THEN conjunct2, THEN mp, OF q]
  have b: "usage_logs (snd (api_chat late_request lapsed_world)) = [] \<and>
      adapter_calls (snd (api_chat late_request lapsed_world)) = []"
    by (simp add: e)
  have au: "authenticated demo_request spent_world spent_user"
    by (simp add: authenticated_def demo_request_def request_api_key_def
      fetch_user_def spent_world_def demo_world_def spent_user_def demo_user_def)
  have pre: "pre_call_usage demo_request spent_user = 10000"
    and ro: "rollover demo_request spent_user spent_world = spent_world"
    by (simp_all add: pre_call_usage_def rollover_def demo_request_def spent_user_def
        demo_user_def)
  have n: "get_prompt demo_request \<noteq> []" and l: "\<And>x. limiter_admits demo_request x"
    by (simp_all add: demo_request_def get_prompt_def)
  have cx: "req_tokens_included (request_attrs (spent_user\<lparr>tokens_used := 10000\<rparr>)) = 10000"
    "req_tokens_used (request_attrs (spent_user\<lparr>tokens_used := 10000\<rparr>)) = 10000"
    by (simp_all add: request_attrs_def spent_user_def demo_user_def)
  have run: "api_chat demo_request spent_world = (Inl TokenQuotaExceeded, spent_world)"
    by (simp add: api_chat_authenticated [OF au] pre ro limiter_limit_def l
        chat_quota_exceeded n cx)
  from rejection_records_nothing [of demo_request spent_world] run
  obtain u where "authenticated demo_request spent_world u"
    and "snd (api_chat demo_request spent_world) =
           (if now_check demo_request > tokens_reset_date u
            then reset_tokens (api_key u) (now_reset demo_request + days30) spent_world
            else spent_world)"
    by auto
  then have c: "snd (api_chat demo_request spent_world) = spent_world"
    by (simp add: run)
  from a b c show ?thesis by simp
qed

subsection \<open>Two requests of one account\<close>

lemma authenticated_in_period:
  "authenticated rq w u \<Longrightarrow> now_check rq \<le> tokens_reset_date u \<Longrightarrow>
   authenticate rq w = (Inr (request_attrs u), w)"
  by (simp add: authenticate_authenticated pre_call_usage_def rollover_def)

lemma api_chat_in_period:
  "authenticated rq w u \<Longrightarrow> now_check rq \<le> tokens_reset_date u \<Longrightarrow>
   api_chat rq w = limiter_limit get_rate_limit chat (request_attrs u) rq w"
  by (simp add: api_chat_def require_api_key_def authenticated_in_period)

lemma authenticated_fetch: "authenticated rq w u \<Longrightarrow> fetch_user w (api_key u) = Some u"
  by (auto simp add: authenticated_def fetch_user_key split: option.splits)

lemma limited_chat_admitted_state:
  assumes "\<forall>l. limiter_admits rq l" and "get_prompt rq \<noteq> []"
    and "req_tokens_used cx < req_tokens_included cx"
    and "sqlite_int (tokens (fst (provider_call rq)))"
    and "sqlite_int (req_tokens_used cx + tokens (fst (provider_call rq)))"
  shows "snd (limiter_limit get_rate_limit chat cx rq w) =
    usage_writes cx rq (fst (provider_call rq))
      (w\<lparr>adapter_calls := adapter_calls w @ [snd (provider_call rq)]\<rparr>)"
  using assms by (simp add: limiter_limit_def chat_admitted_state)

text \<open>
  Both requests are of the account \<open>u\<close>, inside its period, and are admitted, and what
  they write fits the integers of the store. When they overlap, the second handler writes
  the usage its decorator read plus its own tokens: the tokens of the first request are not
  in the row. One after the other, both are.
\<close>

lemma overlapped_debit:
  assumes auA: "authenticated rqA w u" and auB: "authenticated rqB w u"
    and pA: "now_check rqA \<le> tokens_reset_date u" and pB: "now_check rqB \<le> tokens_reset_date u"
    and lA: "\<forall>l. limiter_admits rqA l" and lB: "\<forall>l. limiter_admits rqB l"
    and nA: "get_prompt rqA \<noteq> []" and nB: "get_prompt rqB \<noteq> []"
    and lt: "tokens_used u < tokens_included u"
    and sA: "sqlite_int (tokens (fst (provider_call rqA)))"
      "sqlite_int (tokens_used u + tokens (fst (provider_call rqA)))"
    and sB: "sqlite_int (tokens (fst (provider_call rqB)))"
      "sqlite_int (tokens_used u + tokens (fst (provider_call rqB)))"
  shows "fetch_user (snd (overlapped rqA rqB w)) (api_key u) =
    Some (u\<lparr>tokens_used := tokens_used u + tokens (fst (provider_call rqB)),
            updated_at := now_update rqB\<rparr>)"
proof -
  let ?cx = "request_attrs u"
  let ?w3 = "snd (limiter_limit get_rate_limit chat ?cx rqA w)"
  have cx: "req_tokens_used ?cx < req_tokens_included ?cx" "req_user_id ?cx = uid u"
    "req_tokens_used ?cx = tokens_used u"
    using lt by (simp_all add: request_attrs_def)
  have st: "snd (overlapped rqA rqB w) = snd (limiter_limit get_rate_limit chat ?cx rqB ?w3)"
    by (simp add: overlapped_def authenticated_in_period [OF auA pA]
        authenticated_in_period [OF auB pB] split_beta)
  have cA: "sqlite_int (req_tokens_used ?cx + tokens (fst (provider_call rqA)))"
    and cB: "sqlite_int (req_tokens_used ?cx + tokens (fst (provider_call rqB)))"
    using sA sB by (simp_all add: cx)
  have "fetch_user ?w3 (api_key u) =
      Some (u\<lparr>tokens_used := tokens_used u + tokens (fst (provider_call rqA)),
              updated_at := now_update rqA\<rparr>)"
    by (simp add: limited_chat_admitted_state [OF lA nA cx(1) sA(1) cA] fetch_user_usage_writes
        authenticated_fetch [OF auA] cx)
  then show ?thesis
    by (simp add: st limited_chat_admitted_state [OF lB nB cx(1) sB(1) cB]
        fetch_user_usage_writes cx)
qed

lemma sequential_debit:
  assumes auA: "authenticated rqA w u"
    and kB: "request_api_key rqB = request_api_key rqA"
    and pA: "now_check rqA \<le> tokens_reset_date u" and pB: "now_check rqB \<le> tokens_reset_date u"
    and lA: "\<forall>l. limiter_admits rqA l" and lB: "\<forall>l. limiter_admits rqB l"
    and nA: "get_prompt rqA \<noteq> []" and nB: "get_prompt rqB \<noteq> []"
    and lt: "tokens_used u < tokens_included u"
    and lt': "tokens_used u + tokens (fst (provider_call rqA)) < tokens_included u"
    and sA: "sqlite_int (tokens (fst (provider_call rqA)))"
      "sqlite_int (tokens_used u + tokens (fst (provider_call rqA)))"
    and sB: "sqlite_int (tokens (fst (provider_call rqB)))"
      "sqlite_int (tokens_used u + tokens (fst (provider_call rqA)) +
         tokens (fst (provider_call rqB)))"
  shows "fetch_user (snd (api_chat rqB (snd (api_chat rqA w)))) (api_key u) =
    Some (u\<lparr>tokens_used :=
              tokens_used u + tokens (fst (provider_call rqA)) + tokens (fst (provider_call rqB)),
            updated_at := now_update rqB\<rparr>)"
proof -
  let ?cx = "request_attrs u"
  let ?w1 = "snd (api_chat rqA w)"
  let ?u1 = "u\<lparr>tokens_used := tokens_used u + tokens (fst (provider_call rqA)),
              updated_at := now_update rqA\<rparr>"
  have cx: "req_tokens_used ?cx < req_tokens_included ?cx" "req_user_id ?cx = uid u"
    "req_tokens_used ?cx = tokens_used u"
    using lt by (simp_all add: request_attrs_def)
  have cx1: "req_tokens_used (request_attrs ?u1) < req_tokens_included (request_attrs ?u1)"
    "req_user_id (request_attrs ?u1) = uid u"
    "req_tokens_used (request_attrs ?u1) = tokens_used u + tokens (fst (provider_call rqA))"
    using lt' by (simp_all add: request_attrs_def)
  have runA: "api_chat rqA w = limiter_limit get_rate_limit chat ?cx rqA w"
    by (rule api_chat_in_period [OF auA pA])
  have cA: "sqlite_int (req_tokens_used ?cx + tokens (fst (provider_call rqA)))"
    using sA by (simp add: cx)
  have cB: "sqlite_int (req_tokens_used (request_attrs ?u1) + tokens (fst (provider_call rqB)))"
    using sB by (simp add: cx1)
  have f1: "fetch_user ?w1 (api_key u) = Some ?u1"
    by (simp add: runA limited_chat_admitted_state [OF lA nA cx(1) sA(1) cA]
        fetch_user_usage_writes authenticated_fetch [OF auA] cx)
  from auA kB f1 have auB: "authenticated rqB ?w1 ?u1"
    by (auto simp add: authenticated_def fetch_user_key split: option.splits)
  from pB have pB': "now_check rqB \<le> tokens_reset_date ?u1" by simp
  have runB: "api_chat rqB ?w1 = limiter_limit get_rate_limit chat (request_attrs ?u1) rqB ?w1"
    by (rule api_chat_in_period [OF auB pB'])
  show ?thesis
    by (simp add: runB limited_chat_admitted_state [OF lB nB cx1(1) sB(1) cB]
        fetch_user_usage_writes f1 cx1)
qed

text \<open>
  C1 fails on the code. Two admitted requests of one account, each spending 5 tokens, on
  a usage of 0: when they overlap, both usage rows are written but the account ends with 5
  tokens used, not 10; one after the other they end with 10.
\<close>

theorem overlapped_requests_lose_a_debit:
  "map tokens_used (users demo_world) = [0] \<and>
   map tokens_log (usage_logs (snd (overlapped four_words four_words demo_world))) = [5, 5] \<and>
   fetch_user (snd (overlapped four_words four_words demo_world)) ''demo_key'' =
     Some (demo_user\<lparr>tokens_used := 5, updated_at := 13\<rparr>) \<and>
   fetch_user (snd (api_chat four_words (snd (api_chat four_words demo_world)))) ''demo_key'' =
     Some (demo_user\<lparr>tokens_used := 10, updated_at := 13\<rparr>)"
proof -
  note f = four_words_facts demo_four_words_facts
  have l: "\<forall>l. limiter_admits four_words l" by (simp add: f)
  have a: "map tokens_used (users demo_world) = [0]" and e: "usage_logs demo_world = []"
    by (simp_all add: demo_world_def demo_user_def)
  have cx: "req_tokens_used (request_attrs demo_user) < req_tokens_included (request_attrs demo_user)"
    by (simp add: request_attrs_def f)
  have st: "snd (overlapped four_words four_words demo_world) =
      snd (limiter_limit get_rate_limit chat (request_attrs demo_user) four_words
        (snd (limiter_limit get_rate_limit chat (request_attrs demo_user) four_words demo_world)))"
    by (simp add: overlapped_def authenticated_in_period [OF f(7)] f split_beta)
  have s5: "sqlite_int (tokens (fst (provider_call four_words)))"
    and sn: "sqlite_int (req_tokens_used (request_attrs demo_user) +
      tokens (fst (provider_call four_words)))"
    by (simp_all add: request_attrs_def f sqlite_int_small)
  have b: "map tokens_log (usage_logs (snd (overlapped four_words four_words demo_world))) = [5, 5]"
    by (simp add: st limited_chat_admitted_state [OF l f(1) cx s5 sn] usage_writes_def f e)
  have c: "fetch_user (snd (overlapped four_words four_words demo_world)) ''demo_key'' =
     Some (demo_user\<lparr>tokens_used := 5, updated_at := 13\<rparr>)"
    using overlapped_debit [of four_words demo_world demo_user four_words]
    by (simp add: f sqlite_int_small)
  have d: "fetch_user (snd (api_chat four_words (snd (api_chat four_words demo_world))))
      ''demo_key'' = Some (demo_user\<lparr>tokens_used := 10, updated_at := 13\<rparr>)"
    using sequential_debit [of four_words demo_world demo_user four_words]
    by (simp add: f sqlite_int_small)
  from a b c d show ?thesis by simp
qed

subsection \<open>The daily aggregate\<close>

text \<open>
  What one completed call does to the daily row of its account: the counters grow by the
  call, and the latency column takes the latency of the call, whatever the row held.
\<close>

lemma upsert_daily_row:
  "upsert_daily today user_id res tbl (today, user_id) =
     Some \<lparr>total_requests =
             (case tbl (today, user_id) of None \<Rightarrow> 0 | Some a \<Rightarrow> total_requests a) + 1,
           total_tokens =
             (case tbl (today, user_id) of None \<Rightarrow> 0 | Some a \<Rightarrow> total_tokens a) + tokens res,
           total_cost =
             (case tbl (today, user_id) of None \<Rightarrow> 0 | Some a \<Rightarrow> total_cost a) + cost res,
           avg_response_time = response_time res\<rparr>"
  by (simp add: upsert_daily_def)

lemma chat_daily_row:
  assumes "get_prompt rq \<noteq> []" and "req_tokens_used cx < req_tokens_included cx"
    and "sqlite_int (tokens (fst (provider_call rq)))"
    and "sqlite_int (req_tokens_used cx + tokens (fst (provider_call rq)))"
  shows "analytics_daily (snd (chat cx rq w)) (date_of (now_today rq), req_user_id cx) =
    Some \<lparr>total_requests =
            (case analytics_daily w (date_of (now_today rq), req_user_id cx) of
               None \<Rightarrow> 0 | Some a \<Rightarrow> total_requests a) + 1,
          total_tokens =
            (case analytics_daily w (date_of (now_today rq), req_user_id cx) of
               None \<Rightarrow> 0 | Some a \<Rightarrow> total_tokens a) + tokens (fst (provider_call rq)),
          total_cost =
            (case analytics_daily w (date_of (now_today rq), req_user_id cx) of
               None \<Rightarrow> 0 | Some a \<Rightarrow> total_cost a) + cost (fst (provider_call rq)),
          avg_response_time = response_time (fst (provider_call rq))\<rparr>"
  using assms by (simp add: chat_admitted_state usage_writes_def upsert_daily_row)

lemma demo_request_call:
  "fst (provider_call demo_request) =
     \<lparr>response = mock_response ''gpt-3.5-turbo'' ''hello world'', tokens = 2,
      cost = 4 / 1000000, model = ''gpt-3.5-turbo'', response_time = 1 / 2,
      provider = ''openai''\<rparr>"
proof -
  have co: "calculate_openai_cost ''gpt-3.5-turbo'' 2 = 4 / 1000000"
    by (simp add: calculate_openai_cost_def)
  show ?thesis
    by (simp add: demo_request_def get_prompt_def get_model_def
        get_provider_def provider_call_def routed_call_def call_openai_api_def
        call_openai_mock_def py_split_def py_isspace_def Let_def round6_openai_cost co)
qed

lemma via_anthropic_call:
  "fst (provider_call via_anthropic) =
     \<lparr>response = mock_response ''claude-3-sonnet-20240229'' ''hello world'', tokens = 2,
      cost = 30 / 1000000, model = ''claude-3-sonnet-20240229'', response_time = 7 / 10,
      provider = ''anthropic''\<rparr>"
proof -
  have co: "calculate_anthropic_cost ''claude-3-sonnet-20240229'' 2 = 30 / 1000000"
    by (simp add: calculate_anthropic_cost_def)
  show ?thesis
    by (simp add: via_anthropic_def demo_request_def get_prompt_def get_model_def
        get_provider_def provider_call_def routed_call_def call_anthropic_api_def
        call_claude_mock_def py_split_def py_isspace_def Let_def round6_anthropic_cost co)
qed

lemma demo_requests_facts:
  "authenticated demo_request demo_world demo_user"
  "now_check demo_request \<le> tokens_reset_date demo_user"
  "limiter_admits demo_request l"
  "get_prompt demo_request \<noteq> []"
  "request_api_key via_anthropic = request_api_key demo_request"
  "now_check via_anthropic \<le> tokens_reset_date demo_user"
  "limiter_admits via_anthropic l"
  "get_prompt via_anthropic \<noteq> []"
  "date_of (now_today demo_request) = 0"
  "date_of (now_today via_anthropic) = 0"
  "now_update demo_request = 13"
  "uid demo_user = ''u1''"
  "request_api_key via_anthropic = Some ''demo_key''"
  "is_active demo_user"
  by (simp_all add: authenticated_def via_anthropic_def demo_request_def request_api_key_def
      fetch_user_def demo_world_def demo_user_def get_prompt_def date_of_def)

text \<open>
  C4 fails on the code in its last part. Two completed calls of one account on one day,
  with latencies 0.5 and 0.7: the daily row counts 2 requests, 4 tokens and the sum of the
  two costs, and its latency column holds 0.7, the latency of the last call, where the
  average of the day's calls is 0.6.
\<close>

theorem daily_latency_is_the_last_call:
  "map response_time_log
     (usage_logs (snd (api_chat via_anthropic (snd (api_chat demo_request demo_world))))) =
     [1 / 2, 7 / 10] \<and>
   analytics_daily (snd (api_chat via_anthropic (snd (api_chat demo_request demo_world))))
     (0, ''u1'') =
     Some \<lparr>total_requests = 2, total_tokens = 4, total_cost = 34 / 1000000,
           avg_response_time = 7 / 10\<rparr>"
proof -
  note f = demo_requests_facts demo_four_words_facts
  let ?cx = "request_attrs demo_user"
  let ?w1 = "snd (api_chat demo_request demo_world)"
  let ?u1 = "demo_user\<lparr>tokens_used := 2, updated_at := 13\<rparr>"
  have cx: "req_tokens_used ?cx < req_tokens_included ?cx" "req_user_id ?cx = ''u1''"
    "req_tokens_used (request_attrs ?u1) < req_tokens_included (request_attrs ?u1)"
    "req_user_id (request_attrs ?u1) = ''u1''"
    by (simp_all add: request_attrs_def f)
  have e: "usage_logs demo_world = []" "analytics_daily demo_world (0, ''u1'') = None"
    by (simp_all add: demo_world_def)
  have s1: "sqlite_int (tokens (fst (provider_call demo_request)))"
    "sqlite_int (req_tokens_used ?cx + tokens (fst (provider_call demo_request)))"
    by (simp_all add: request_attrs_def f demo_request_call sqlite_int_small)
  have s2: "sqlite_int (tokens (fst (provider_call via_anthropic)))"
    "sqlite_int (req_tokens_used (request_attrs ?u1) + tokens (fst (provider_call via_anthropic)))"
    by (simp_all add: request_attrs_def f via_anthropic_call sqlite_int_small)
  have run1: "api_chat demo_request demo_world = chat ?cx demo_request demo_world"
    by (simp add: api_chat_in_period [OF f(1) f(2)] limiter_limit_def f)
  have st1: "?w1 = usage_writes ?cx demo_request (fst (provider_call demo_request))
      (demo_world\<lparr>adapter_calls :=
         adapter_calls demo_world @ [snd (provider_call demo_request)]\<rparr>)"
    by (simp add: run1 chat_admitted_state [OF f(4) cx(1) s1])
  have row1: "analytics_daily ?w1 (0, ''u1'') =
      Some \<lparr>total_requests = 1, total_tokens = 2, total_cost = 4 / 1000000,
            avg_response_time = 1 / 2\<rparr>"
    using chat_daily_row [OF f(4) cx(1) s1, of demo_world]
    by (simp add: run1 f cx e demo_request_call)
  have log1: "map response_time_log (usage_logs ?w1) = [1 / 2]"
    by (simp add: st1 usage_writes_def e demo_request_call)
  have "fetch_user ?w1 ''demo_key'' = Some ?u1"
    by (simp add: st1 fetch_user_usage_writes authenticated_fetch [OF f(1), simplified f] cx f
        request_attrs_def demo_request_call)
  then have au2: "authenticated via_anthropic ?w1 ?u1"
    by (simp add: authenticated_def f(13) f(14))
  have p2: "now_check via_anthropic \<le> tokens_reset_date ?u1"
    using f(6) by simp
  have run2: "api_chat via_anthropic ?w1 = chat (request_attrs ?u1) via_anthropic ?w1"
    by (simp add: api_chat_in_period [OF au2 p2] limiter_limit_def f)
  have st2: "snd (api_chat via_anthropic ?w1) =
      usage_writes (request_attrs ?u1) via_anthropic (fst (provider_call via_anthropic))
        (?w1\<lparr>adapter_calls := adapter_calls ?w1 @ [snd (provider_call via_anthropic)]\<rparr>)"
    by (simp add: run2 chat_admitted_state [OF f(8) cx(3) s2])
  have a: "map response_time_log (usage_logs (snd (api_chat via_anthropic ?w1))) =
      [1 / 2, 7 / 10]"
    by (simp add: st2 usage_writes_def log1 via_anthropic_call)
  have b: "analytics_daily (snd (api_chat via_anthropic ?w1)) (0, ''u1'') =
     Some \<lparr>total_requests = 2, total_tokens = 4, total_cost = 34 / 1000000,
           avg_response_time = 7 / 10\<rparr>"
    using chat_daily_row [OF f(8) cx(3) s2, of ?w1]
    by (simp add: run2 f cx row1 via_anthropic_call)
  from a b show ?thesis by simp
qed

end
